(* ===== verification/Prelude.thy ===== *)
theory Prelude
  imports Main
begin

text \<open>
  The Python primitives that \<^verbatim>\<open>gameboard1.py\<close> (in the design-pattern directory of \<^verbatim>\<open>src/\<close>) relies on, modelled
  once and shared by every component theory:
  \<^item> Python \<open>str\<close> values as lists of Unicode code points (\<open>pystr\<close>), with
    \<open>py_str\<close> turning an ASCII literal into one;
  \<^item> the exceptions the program can raise (\<open>py_error\<close>) and results of fallible
    code as \<open>py_error + 'a\<close>, sequenced by \<open>rbind\<close>;
  \<^item> a \<^verbatim>\<open>for\<close> loop whose body may raise (\<open>for_each\<close>);
  \<^item> \<^verbatim>\<open>range(n)\<close> and \<^verbatim>\<open>range(start, stop, step)\<close> with CPython's length formula;
  \<^item> list subscription and subscript assignment with Python's negative indices and
    \<^verbatim>\<open>IndexError\<close>;
  \<^item> the shape predicate of a list of lists (a rectangular grid).
\<close>

named_theorems py_simps "evaluation rules of the modelled Python primitives"

section \<open>Strings\<close>

text \<open>
  A Python \<open>str\<close> is a sequence of code points. HOL's \<open>char\<close> is a byte, so
  the draught glyphs BLACK CIRCLE (U+25CF) and WHITE CIRCLE (U+25CB) need a wider character type:
  a string is a list of natural numbers, and ASCII literals are converted.
\<close>

type_synonym pystr = "nat list"

definition py_str :: "string \<Rightarrow> pystr" where
  "py_str s = map of_char s"

abbreviation ESC :: nat where
  "ESC \<equiv> 27"

abbreviation NL :: nat where
  "NL \<equiv> 10"

lemma py_str_simps [simp, py_simps]:
  "py_str [] = []"
  "py_str (c # s) = of_char c # py_str s"
  "py_str (s @ t) = py_str s @ py_str t"
  by (simp_all add: py_str_def)

lemma length_py_str [simp]: "length (py_str s) = length s"
  by (simp add: py_str_def)

text \<open>
  \<^verbatim>\<open>"{}".format(n)\<close> of a Python \<open>int\<close>: its decimal digits, with a minus sign when
  negative (\<open>48\<close> is the code point of \<^verbatim>\<open>0\<close>, \<open>45\<close> of \<^verbatim>\<open>-\<close>).
\<close>

fun nat_digits :: "nat \<Rightarrow> pystr" where
  "nat_digits n = (if n < 10 then [48 + n] else nat_digits (n div 10) @ [48 + n mod 10])"

declare nat_digits.simps [simp del]

definition py_int_str :: "int \<Rightarrow> pystr" where
  "py_int_str i = (if i < 0 then 45 # nat_digits (nat (- i)) else nat_digits (nat i))"

lemma nat_digits_digit [simp]: "n < 10 \<Longrightarrow> nat_digits n = [48 + n]"
  by (simp add: nat_digits.simps)

lemma nat_digits_ge10:
  "10 \<le> n \<Longrightarrow> nat_digits n = nat_digits (n div 10) @ [48 + n mod 10]"
  by (simp add: nat_digits.simps)

lemma set_nat_digits: "set (nat_digits n) \<subseteq> {48..<58}"
proof (induction n rule: nat_digits.induct)
  case (1 n)
  then show ?case
    by (cases "n < 10") (auto simp: nat_digits_ge10)
qed

text \<open>A board cell: \<^verbatim>\<open>None\<close> or the \<open>str\<close> a piece constructor returned.\<close>

type_synonym cell = "pystr option"

text \<open>\<^verbatim>\<open>char or ""\<close>: \<^verbatim>\<open>None\<close> and the empty string are false, any other string is itself.\<close>

definition py_or_empty :: "cell \<Rightarrow> pystr" where
  "py_or_empty c = (case c of None \<Rightarrow> [] | Some s \<Rightarrow> if s = [] then [] else s)"

lemma py_or_empty_simps [simp, py_simps]:
  "py_or_empty None = []"
  "py_or_empty (Some s) = s"
  by (simp_all add: py_or_empty_def)

section \<open>Exceptions and results\<close>

datatype py_error =
    NotImplementedError
  | IndexError
  | ValueError
  | AttributeError
  | UnicodeEncodeError

type_synonym 'a result = "py_error + 'a"

definition rbind :: "'a result \<Rightarrow> ('a \<Rightarrow> 'b result) \<Rightarrow> 'b result" where
  "rbind m f = (case m of Inl e \<Rightarrow> Inl e | Inr a \<Rightarrow> f a)"

lemma rbind_simps [simp, py_simps]:
  "rbind (Inl e) f = Inl e"
  "rbind (Inr a) f = f a"
  by (simp_all add: rbind_def)

lemma rbind_Inr_right [simp]: "rbind m Inr = m"
  by (cases m) simp_all

lemma rbind_eq_Inr_iff:
  "rbind m f = Inr b \<longleftrightarrow> (\<exists>a. m = Inr a \<and> f a = Inr b)"
  by (cases m) simp_all

text \<open>
  A \<^verbatim>\<open>for\<close> loop over a list, each iteration threading the state and possibly
  raising: the first exception leaves the loop and propagates.
\<close>

fun for_each :: "('s \<Rightarrow> 'a \<Rightarrow> 's result) \<Rightarrow> 's \<Rightarrow> 'a list \<Rightarrow> 's result" where
  "for_each f s [] = Inr s"
| "for_each f s (x # xs) = rbind (f s x) (\<lambda>s'. for_each f s' xs)"

lemma for_each_append:
  "for_each f s (xs @ ys) = rbind (for_each f s xs) (\<lambda>s'. for_each f s' ys)"
  by (induction xs arbitrary: s) (auto simp: rbind_def split: sum.splits)

text \<open>
  Nested loops are one loop over the concatenated iterations: the body of the outer
  loop is itself a loop over the list \<open>g x\<close>.
\<close>

lemma for_each_concat:
  "for_each f s (concat (map g xs)) = for_each (\<lambda>s x. for_each f s (g x)) s xs"
proof (induction xs arbitrary: s)
  case Nil
  show ?case by simp
next
  case (Cons x xs)
  have "for_each f s (concat (map g (x # xs))) =
        rbind (for_each f s (g x)) (\<lambda>s'. for_each f s' (concat (map g xs)))"
    by (simp add: for_each_append)
  also have "\<dots> = for_each (\<lambda>s x. for_each f s (g x)) s (x # xs)"
    using Cons.IH by simp
  finally show ?case .
qed

text \<open>An invariant kept by every successful iteration holds after the loop.\<close>

lemma replicate_numeral: "replicate (numeral k) x = x # replicate (pred_numeral k) x"
  by (simp add: numeral_eq_Suc)

lemma concat_concat_map: "concat (concat (map f xs)) = concat (map (\<lambda>x. concat (f x)) xs)"
  by (induction xs) simp_all

lemma map_enumerate_snd: "map (\<lambda>(i, x). f x) (enumerate n xs) = map f xs"
  by (induction xs arbitrary: n) simp_all

lemma list_all_upt: "list_all P [0..<n] \<longleftrightarrow> (\<forall>i<n. P i)"
  by (auto simp: list_all_iff)

text \<open>
  A finite map on pairs is known from a table of its values on
  \<open>{0..<n} \<times> {0..<m}\<close> when no key lies outside: the shape of the closed
  evaluations of the board layouts.
\<close>

lemma map_of_table:
  assumes "list_all (\<lambda>i. list_all (\<lambda>j. map_of L (i, j) = G i j) [0..<m]) [0..<n]"
    and "list_all (\<lambda>((a, b), v). a < n \<and> b < m) L"
    and "\<And>i j. \<not> (i < n \<and> j < m) \<Longrightarrow> G i j = None"
  shows "map_of L (i, j) = G i j"
proof (cases "i < n \<and> j < m")
  case True
  with assms(1) show ?thesis unfolding list_all_upt by blast
next
  case False
  from assms(2) have "\<forall>k \<in> fst ` set L. fst k < n \<and> snd k < m"
    by (auto simp: list_all_iff)
  with False have "(i, j) \<notin> fst ` set L"
    by (metis fst_conv snd_conv)
  then have "map_of L (i, j) = None"
    by (simp add: map_of_eq_None_iff)
  with False assms(3) show ?thesis by simp
qed

section \<open>range\<close>

text \<open>
  CPython computes the length of \<^verbatim>\<open>range(start, stop, step)\<close> as
  \<open>(stop - start + step - sign(step)) // step\<close>, clamped at zero, and raises
  \<^verbatim>\<open>ValueError\<close> for a zero step.
\<close>

definition range_len :: "int \<Rightarrow> int \<Rightarrow> int \<Rightarrow> nat" where
  "range_len start stop step = nat ((stop - start + step - sgn step) div step)"

definition py_range :: "int \<Rightarrow> int \<Rightarrow> int \<Rightarrow> int list result" where
  "py_range start stop step =
     (if step = 0 then Inl ValueError
      else Inr (map (\<lambda>k. start + step * int k) [0..<range_len start stop step]))"

definition py_range1 :: "int \<Rightarrow> int list" where
  "py_range1 stop = map int [0..<nat stop]"

lemma py_range1_eq_py_range: "py_range 0 stop 1 = Inr (py_range1 stop)"
  by (simp add: py_range_def py_range1_def range_len_def)

lemma set_py_range1 [simp]: "set (py_range1 n) = {0..<n}"
proof -
  have "set (py_range1 n) = int ` {0..<nat n}"
    by (simp add: py_range1_def)
  also have "\<dots> = {0..<n}"
    by (auto simp: image_iff intro!: bexI [where x = "nat _"])
  finally show ?thesis .
qed

lemma nat_ge_numeral [simp]: "numeral n \<le> nat k \<longleftrightarrow> numeral n \<le> k"
proof (cases "0 \<le> k")
  case True
  then show ?thesis by (simp add: le_nat_iff)
next
  case False
  have "\<not> numeral n \<le> k"
  proof
    assume "numeral n \<le> k"
    then have "0 \<le> k" using zero_le_numeral order_trans by blast
    with False show False ..
  qed
  with False show ?thesis by simp
qed

lemma length_py_range1 [simp]: "length (py_range1 n) = nat n"
  by (simp add: py_range1_def)

section \<open>Subscription with Python's index rules\<close>

text \<open>
  \<^verbatim>\<open>xs[i]\<close> and \<^verbatim>\<open>xs[i] = v\<close>: a negative index counts from the end; an index
  outside \<open>-len(xs) \<le> i < len(xs)\<close> raises \<^verbatim>\<open>IndexError\<close>.
\<close>

definition py_norm_index :: "nat \<Rightarrow> int \<Rightarrow> int" where
  "py_norm_index n i = (if i < 0 then int n + i else i)"

definition py_in_range :: "nat \<Rightarrow> int \<Rightarrow> bool" where
  "py_in_range n i \<longleftrightarrow> - int n \<le> i \<and> i < int n"

definition py_getitem :: "'a list \<Rightarrow> int \<Rightarrow> 'a result" where
  "py_getitem xs i =
     (let j = py_norm_index (length xs) i
      in if 0 \<le> j \<and> j < int (length xs) then Inr (xs ! nat j) else Inl IndexError)"

definition py_setitem :: "'a list \<Rightarrow> int \<Rightarrow> 'a \<Rightarrow> 'a list result" where
  "py_setitem xs i v =
     (let j = py_norm_index (length xs) i
      in if 0 \<le> j \<and> j < int (length xs) then Inr (xs[nat j := v]) else Inl IndexError)"

lemma py_norm_index_nonneg [simp]: "0 \<le> i \<Longrightarrow> py_norm_index n i = i"
  by (simp add: py_norm_index_def)

lemma py_in_range_norm:
  "py_in_range n i \<longleftrightarrow> 0 \<le> py_norm_index n i \<and> py_norm_index n i < int n"
  by (auto simp: py_in_range_def py_norm_index_def)

lemma py_in_range_nonneg [simp]: "0 \<le> i \<Longrightarrow> py_in_range n i \<longleftrightarrow> i < int n"
  by (simp add: py_in_range_def)

lemma nat_norm_less:
  "py_in_range n i \<Longrightarrow> nat (py_norm_index n i) < n"
  by (auto simp: py_in_range_norm)

lemma py_getitem_ok [py_simps]:
  "py_in_range (length xs) i \<Longrightarrow> py_getitem xs i = Inr (xs ! nat (py_norm_index (length xs) i))"
  by (simp add: py_getitem_def py_in_range_norm)

lemma py_getitem_error [py_simps]:
  "\<not> py_in_range (length xs) i \<Longrightarrow> py_getitem xs i = Inl IndexError"
  by (auto simp: py_getitem_def py_in_range_norm Let_def)

lemma py_setitem_ok [py_simps]:
  "py_in_range (length xs) i \<Longrightarrow>
   py_setitem xs i v = Inr (xs[nat (py_norm_index (length xs) i) := v])"
  by (simp add: py_setitem_def py_in_range_norm)

lemma py_setitem_error [py_simps]:
  "\<not> py_in_range (length xs) i \<Longrightarrow> py_setitem xs i v = Inl IndexError"
  by (auto simp: py_setitem_def py_in_range_norm Let_def)

section \<open>Grids\<close>

text \<open>A list of \<open>rows\<close> lists, each of length \<open>cols\<close>.\<close>

definition grid_shape :: "nat \<Rightarrow> nat \<Rightarrow> 'a list list \<Rightarrow> bool" where
  "grid_shape rows cols g \<longleftrightarrow> length g = rows \<and> list_all (\<lambda>r. length r = cols) g"

lemma grid_shape_nth:
  "grid_shape rows cols g \<Longrightarrow> i < rows \<Longrightarrow> length (g ! i) = cols"
  by (simp add: grid_shape_def list_all_length)

lemma grid_shape_update:
  "grid_shape rows cols g \<Longrightarrow> length r = cols \<Longrightarrow> grid_shape rows cols (g[i := r])"
  unfolding grid_shape_def list_all_length
  by (metis length_list_update nth_list_update_eq nth_list_update_neq)

lemma grid_shape_replicate:
  "grid_shape rows cols (replicate rows (replicate cols x))"
  by (simp add: grid_shape_def list_all_length)

end
