(* ===== verification/Pieces.thy ===== *)
theory Pieces
  imports Prelude
begin

text \<open>
  The piece catalog, lines 6 and 19--174 of \<^verbatim>\<open>gameboard1.py\<close>. The module constants
  \<^verbatim>\<open>BLACK, WHITE\<close> are the strings \<^verbatim>\<open>'BLACK'\<close> and \<^verbatim>\<open>'WHITE'\<close>, compared only with
  each other: they are the datatype \<open>color\<close>. Each of the fourteen subclasses of
  \<^verbatim>\<open>Piece(str)\<close> is a constructor of \<open>piece_class\<close>; calling the class runs its
  \<^verbatim>\<open>__new__\<close>, which builds a \<^verbatim>\<open>Piece\<close> instance, discards it and returns a plain
  \<open>str\<close> literal. So the value a board holds is that string (\<open>piece_new\<close>), not a
  \<^verbatim>\<open>Piece\<close>.

  The spec's catalog (\<^verbatim>\<open>spec.md\<close> 4.1) pairs a colour and a kind with a glyph
  (\<open>spec_glyph\<close>). The lemmas show that the classes refine that table and that a
  glyph determines its class
  (\<open>piece_of_glyph\<close> inverts \<open>piece_new\<close>).
\<close>

datatype color = BLACK | WHITE

datatype piece_class =
    BlackDraught
  | WhiteDraught
  | BlackChessKing
  | WhiteChessKing
  | BlackChessQueen
  | WhiteChessQueen
  | BlackChessRook
  | WhiteChessRook
  | BlackChessBishop
  | WhiteChessBishop
  | BlackChessKnight
  | WhiteChessKnight
  | BlackChessPawn
  | WhiteChessPawn

text \<open>What \<^verbatim>\<open>__new__\<close> of each class returns (U+25CF and U+25CB for the draughts).\<close>

primrec piece_new :: "piece_class \<Rightarrow> pystr" where
  "piece_new BlackDraught = [0x25CF]"
| "piece_new WhiteDraught = [0x25CB]"
| "piece_new BlackChessKing = py_str ''(BK)''"
| "piece_new WhiteChessKing = py_str ''(WK)''"
| "piece_new BlackChessQueen = py_str ''(BQ)''"
| "piece_new WhiteChessQueen = py_str ''(WQ)''"
| "piece_new BlackChessRook = py_str ''(BR)''"
| "piece_new WhiteChessRook = py_str ''(WR)''"
| "piece_new BlackChessBishop = py_str ''(BB)''"
| "piece_new WhiteChessBishop = py_str ''(WB)''"
| "piece_new BlackChessKnight = py_str ''(BKN)''"
| "piece_new WhiteChessKnight = py_str ''(WKN)''"
| "piece_new BlackChessPawn = py_str ''(BP)''"
| "piece_new WhiteChessPawn = py_str ''(WP)''"

definition all_pieces :: "piece_class list" where
  "all_pieces =
     [BlackDraught, WhiteDraught, BlackChessKing, WhiteChessKing, BlackChessQueen,
      WhiteChessQueen, BlackChessRook, WhiteChessRook, BlackChessBishop, WhiteChessBishop,
      BlackChessKnight, WhiteChessKnight, BlackChessPawn, WhiteChessPawn]"

lemma set_all_pieces [simp]: "set all_pieces = UNIV"
proof -
  have "p \<in> set all_pieces" for p
    by (cases p) (simp_all add: all_pieces_def)
  then show ?thesis by blast
qed

lemma distinct_all_pieces: "distinct all_pieces"
  by (simp add: all_pieces_def)

subsection \<open>The spec's catalog\<close>

datatype kind = Draught | King | Queen | Rook | Bishop | Knight | Pawn

primrec piece_color :: "piece_class \<Rightarrow> color" where
  "piece_color BlackDraught = BLACK"
| "piece_color WhiteDraught = WHITE"
| "piece_color BlackChessKing = BLACK"
| "piece_color WhiteChessKing = WHITE"
| "piece_color BlackChessQueen = BLACK"
| "piece_color WhiteChessQueen = WHITE"
| "piece_color BlackChessRook = BLACK"
| "piece_color WhiteChessRook = WHITE"
| "piece_color BlackChessBishop = BLACK"
| "piece_color WhiteChessBishop = WHITE"
| "piece_color BlackChessKnight = BLACK"
| "piece_color WhiteChessKnight = WHITE"
| "piece_color BlackChessPawn = BLACK"
| "piece_color WhiteChessPawn = WHITE"

primrec piece_kind :: "piece_class \<Rightarrow> kind" where
  "piece_kind BlackDraught = Draught"
| "piece_kind WhiteDraught = Draught"
| "piece_kind BlackChessKing = King"
| "piece_kind WhiteChessKing = King"
| "piece_kind BlackChessQueen = Queen"
| "piece_kind WhiteChessQueen = Queen"
| "piece_kind BlackChessRook = Rook"
| "piece_kind WhiteChessRook = Rook"
| "piece_kind BlackChessBishop = Bishop"
| "piece_kind WhiteChessBishop = Bishop"
| "piece_kind BlackChessKnight = Knight"
| "piece_kind WhiteChessKnight = Knight"
| "piece_kind BlackChessPawn = Pawn"
| "piece_kind WhiteChessPawn = Pawn"

text \<open>
  The spec's table: a draught is a filled or hollow disc; a chess piece is its colour
  letter and kind code in parentheses.
\<close>

primrec kind_code :: "kind \<Rightarrow> string" where
  "kind_code Draught = ''''"
| "kind_code King = ''K''"
| "kind_code Queen = ''Q''"
| "kind_code Rook = ''R''"
| "kind_code Bishop = ''B''"
| "kind_code Knight = ''KN''"
| "kind_code Pawn = ''P''"

primrec color_letter :: "color \<Rightarrow> string" where
  "color_letter BLACK = ''B''"
| "color_letter WHITE = ''W''"

definition spec_glyph :: "color \<Rightarrow> kind \<Rightarrow> pystr" where
  "spec_glyph c k =
     (if k = Draught then (if c = BLACK then [0x25CF] else [0x25CB])
      else py_str (''('' @ color_letter c @ kind_code k @ '')''))"

subsection \<open>Decoding a glyph\<close>

definition piece_of_glyph :: "pystr \<Rightarrow> piece_class option" where
  "piece_of_glyph s = find (\<lambda>p. piece_new p = s) all_pieces"

text \<open>
  A glyph is printable on one line and never starts an escape sequence: it is non-empty
  and holds neither ESC nor a line feed.
\<close>

definition glyph_ok :: "pystr \<Rightarrow> bool" where
  "glyph_ok s \<longleftrightarrow> s \<noteq> [] \<and> ESC \<notin> set s \<and> NL \<notin> set s"

lemma piece_new_glyph_ok [simp]: "glyph_ok (piece_new p)"
  by (cases p) (simp_all add: glyph_ok_def)

lemma piece_new_nonempty [simp]: "piece_new p \<noteq> []"
  by (cases p) simp_all

lemma piece_new_inj: "piece_new p = piece_new q \<longleftrightarrow> p = q"
  by (cases p; cases q) simp_all

lemma piece_of_glyph_Some: "piece_of_glyph s = Some p \<Longrightarrow> piece_new p = s"
  by (auto simp: piece_of_glyph_def dest: find_Some_iff [THEN iffD1])

subsection \<open>Properties\<close>

text \<open>
  C16: a glyph determines the class that produced it: decoding the string a piece
  constructor returns gives that class back.
\<close>

theorem piece_of_glyph_piece_new: "piece_of_glyph (piece_new p) = Some p"
  by (cases p) (simp_all add: piece_of_glyph_def all_pieces_def)

text \<open>
  C17: each class's \<^verbatim>\<open>__new__\<close> returns the glyph the spec's catalog (\<^verbatim>\<open>spec.md\<close>
  4.1) gives for the class's colour and kind.
\<close>

theorem piece_new_refines_spec: "piece_new p = spec_glyph (piece_color p) (piece_kind p)"
  by (cases p) (simp_all add: spec_glyph_def)

end
