(* ===== verification/Console.thy ===== *)
theory Console
  imports Pieces "HOL-Library.Sublist"
begin

text \<open>
  The platform-dependent \<^verbatim>\<open>console(char, background)\<close> of lines 8--16 of
  \<^verbatim>\<open>gameboard1.py\<close>. The module picks one of two definitions when it is imported,
  by \<^verbatim>\<open>sys.platform.startswith('win')\<close>; the model takes the value of
  \<^verbatim>\<open>sys.platform\<close> as a parameter (\<open>is_win\<close>). On Windows the cell's text is
  returned bare; elsewhere it is wrapped in \<^verbatim>\<open>"\x1B{}m{}\x1B[0m"\<close> with 43 for a
  \<^verbatim>\<open>BLACK\<close> background and 47 otherwise.

  \<open>ansi_sgr\<close> is the ECMA-48 ``select graphic rendition'' sequence the spec refers to
  (ESC, \<^verbatim>\<open>[\<close>, parameters, \<^verbatim>\<open>m\<close>), and \<open>strip_sgr\<close> is how a reader ignores the
  colour wrapping: every ESC is dropped with what follows it up to and including the
  next \<^verbatim>\<open>m\<close>.
\<close>

definition is_win :: "pystr \<Rightarrow> bool" where
  "is_win platform \<longleftrightarrow> take 3 platform = py_str ''win''"

definition console :: "pystr \<Rightarrow> cell \<Rightarrow> color \<Rightarrow> pystr" where
  "console platform char background =
     (if is_win platform then py_or_empty char
      else [ESC] @ py_int_str (if background = BLACK then 43 else 47) @ py_str ''m''
           @ py_or_empty char @ [ESC] @ py_str ''[0m'')"

definition ansi_sgr :: "pystr \<Rightarrow> pystr" where
  "ansi_sgr params = [ESC] @ py_str ''['' @ params @ py_str ''m''"

function strip_sgr :: "pystr \<Rightarrow> pystr" where
  "strip_sgr [] = []"
| "strip_sgr (c # s) =
     (if c = ESC then strip_sgr (drop 1 (dropWhile (\<lambda>d. d \<noteq> of_char CHR ''m'') s))
      else c # strip_sgr s)"
  by pat_completeness auto
termination
  by (relation "measure length")
    (auto simp: less_Suc_eq_le intro: order_trans [OF diff_le_self length_dropWhile_le])

subsection \<open>Evaluation\<close>

lemma py_int_str_43_47 [py_simps]:
  "py_int_str 43 = [52, 51]"
  "py_int_str 47 = [52, 55]"
  by (simp_all add: py_int_str_def nat_digits_ge10)

lemma console_win [py_simps]: "is_win p \<Longrightarrow> console p c bg = py_or_empty c"
  by (simp add: console_def)

lemma console_posix [py_simps]:
  "\<not> is_win p \<Longrightarrow>
   console p c bg = [ESC, 52, if bg = BLACK then 51 else 55, 109] @ py_or_empty c @ [ESC, 91, 48, 109]"
  by (simp add: console_def py_int_str_43_47)

lemma is_win_simps [py_simps]:
  "is_win (py_str ''win32'')"
  "\<not> is_win (py_str ''linux'')"
  "\<not> is_win (py_str ''darwin'')"
  "\<not> is_win (py_str ''cygwin'')"
  by (simp_all add: is_win_def)

subsection \<open>Stripping escape sequences\<close>

lemma strip_sgr_plain:
  "ESC \<notin> set s \<Longrightarrow> strip_sgr (s @ t) = s @ strip_sgr t"
  by (induction s) simp_all

lemma strip_sgr_plain_only: "ESC \<notin> set s \<Longrightarrow> strip_sgr s = s"
  using strip_sgr_plain [of s "[]"] by simp

lemma strip_sgr_sequence:
  "of_char CHR ''m'' \<notin> set ps \<Longrightarrow> strip_sgr ([ESC] @ ps @ [109] @ t) = strip_sgr t"
proof -
  assume "of_char CHR ''m'' \<notin> set ps"
  then have "dropWhile (\<lambda>d. d \<noteq> 109) (ps @ 109 # t) = 109 # t"
    by (subst dropWhile_append2) auto
  then show ?thesis by simp
qed

text \<open>Stripping a console cell leaves the cell's text, whatever the platform.\<close>

lemma strip_sgr_console_append:
  assumes "ESC \<notin> set (py_or_empty c)"
  shows "strip_sgr (console p c bg @ t) = py_or_empty c @ strip_sgr t"
proof (cases "is_win p")
  case True
  with assms show ?thesis by (simp add: console_win strip_sgr_plain)
next
  case False
  have "strip_sgr (console p c bg @ t) =
        strip_sgr (py_or_empty c @ [ESC] @ [91, 48] @ [109] @ t)"
    using False strip_sgr_sequence [of "[52, if bg = BLACK then 51 else 55]"]
    by (simp add: console_posix)
  also have "\<dots> = py_or_empty c @ strip_sgr t"
    using assms by (simp add: strip_sgr_plain strip_sgr_sequence [of "[91, 48]", simplified])
  finally show ?thesis .
qed

lemma strip_sgr_concat:
  assumes "\<And>x t. x \<in> set xs \<Longrightarrow> strip_sgr (f x @ t) = g x @ strip_sgr t"
  shows "strip_sgr (concat (map f xs) @ t) = concat (map g xs) @ strip_sgr t"
  using assms by (induction xs arbitrary: t) simp_all

subsection \<open>Properties\<close>

text \<open>
  C13: away from Windows, \<^verbatim>\<open>console\<close> does not start with an SGR escape sequence at
  all: its format \<^verbatim>\<open>"\x1B{}m"\<close> lacks the \<^verbatim>\<open>[\<close> after ESC, so the background
  code 43 or 47 is never a colour command, while the closing \<^verbatim>\<open>"\x1B[0m"\<close> is a
  well-formed reset.
\<close>

theorem console_escape_not_sgr:
  assumes "\<not> is_win p"
  shows "(\<forall>params. \<not> prefix (ansi_sgr params) (console p c bg))
    \<and> suffix (ansi_sgr (py_str ''0'')) (console p c bg)"
  using assms by (auto simp: console_posix ansi_sgr_def suffix_def)

theorem console_escape_not_sgr_witness:
  "\<not> is_win (py_str ''linux'') \<and>
   \<not> prefix (ansi_sgr (py_str ''43'')) (console (py_str ''linux'') (Some [0x25CF]) BLACK) \<and>
   suffix (ansi_sgr (py_str ''0'')) (console (py_str ''linux'') (Some [0x25CF]) BLACK)"
  using console_escape_not_sgr [of "py_str ''linux''" "Some [0x25CF]" BLACK]
  by (simp add: is_win_def)

end
