(* ===== verification/Board.thy ===== *)
theory Board
  imports Console
begin

text \<open>
  \<^verbatim>\<open>AbstractBoard\<close>, lines 177--194 of \<^verbatim>\<open>gameboard1.py\<close>. An instance has one
  attribute, \<^verbatim>\<open>self.board\<close>, a list of rows, each a list of cells (record
  \<open>board_obj\<close>). The rows are built by a nested comprehension, so each is a distinct
  list object and writing a cell of one row changes no other: the grid is a value.

  \<^verbatim>\<open>__init__(rows, columns)\<close> allocates the grid of \<^verbatim>\<open>None\<close> and then calls
  \<^verbatim>\<open>self.populate_board()\<close>, which dispatches on the class of \<^verbatim>\<open>self\<close>. The model
  passes the method to \<open>abstract_init\<close> as a function: \<open>abstract_populate_board\<close>
  (raising \<^verbatim>\<open>NotImplementedError\<close>) for the base class, the overriding method of
  a subclass otherwise. Population writes cells by \<^verbatim>\<open>self.board[r][c] = v\<close>
  (\<open>set_cell\<close>): read row \<open>r\<close>, then assign into it, with Python's index rules at
  both subscripts. A population is a loop of such writes (\<open>write_cells\<close>); its
  effect on a rectangular grid is \<open>apply_writes\<close>, and the value of a cell after it
  is the last value written there (\<open>apply_writes_nth\<close>).

  \<^verbatim>\<open>__str__\<close> walks the grid row by row with \<^verbatim>\<open>enumerate\<close>, formats each cell by
  \<open>console\<close> with a background chosen by the parity of \<open>y + x\<close>
  (\<open>square_background\<close>), appends a line feed after each row, and joins the pieces
  (\<open>board_squares\<close>, \<open>board_str\<close>).
\<close>

record board_obj =
  board :: "cell list list"

definition new_grid :: "int \<Rightarrow> int \<Rightarrow> cell list list" where
  "new_grid rows columns = map (\<lambda>_. map (\<lambda>_. None) (py_range1 columns)) (py_range1 rows)"

definition abstract_populate_board :: "board_obj \<Rightarrow> board_obj result" where
  "abstract_populate_board self = Inl NotImplementedError"

definition abstract_init ::
  "(board_obj \<Rightarrow> board_obj result) \<Rightarrow> int \<Rightarrow> int \<Rightarrow> board_obj result" where
  "abstract_init populate_board rows columns =
     (let self = \<lparr>board = new_grid rows columns\<rparr> in populate_board self)"

definition set_cell :: "board_obj \<Rightarrow> int \<Rightarrow> int \<Rightarrow> cell \<Rightarrow> board_obj result" where
  "set_cell self row column v =
     rbind (py_getitem (board self) row) (\<lambda>r.
     rbind (py_setitem r column v) (\<lambda>r'.
     rbind (py_setitem (board self) row r') (\<lambda>g.
     Inr (self\<lparr>board := g\<rparr>))))"

definition write_cells :: "board_obj \<Rightarrow> (int \<times> int \<times> cell) list \<Rightarrow> board_obj result" where
  "write_cells self ws = for_each (\<lambda>s (r, c, v). set_cell s r c v) self ws"

definition square_background :: "nat \<Rightarrow> nat \<Rightarrow> color" where
  "square_background y x = (if (y + x) mod 2 \<noteq> 0 then BLACK else WHITE)"

definition board_squares :: "pystr \<Rightarrow> board_obj \<Rightarrow> pystr list" where
  "board_squares platform self =
     concat (map (\<lambda>(y, row).
        map (\<lambda>(x, piece). console platform piece (square_background y x)) (enumerate 0 row)
        @ [[NL]])
      (enumerate 0 (board self)))"

definition board_str :: "pystr \<Rightarrow> board_obj \<Rightarrow> pystr" where
  "board_str platform self = concat (board_squares platform self)"

lemma new_grid_replicate: "new_grid rows columns = replicate (nat rows) (replicate (nat columns) None)"
  by (simp add: new_grid_def py_range1_def map_replicate_const)

lemma grid_shape_new_grid: "grid_shape (nat rows) (nat columns) (new_grid rows columns)"
  by (simp add: new_grid_replicate grid_shape_replicate)

subsection \<open>The effect of a sequence of writes\<close>

definition upd_cell :: "cell list list \<Rightarrow> nat \<Rightarrow> nat \<Rightarrow> cell \<Rightarrow> cell list list" where
  "upd_cell g i j v = g[i := (g ! i)[j := v]]"

definition cell_pos :: "nat \<Rightarrow> nat \<Rightarrow> int \<times> int \<times> cell \<Rightarrow> (nat \<times> nat) \<times> cell" where
  "cell_pos rows cols w =
     (case w of (r, c, v) \<Rightarrow> ((nat (py_norm_index rows r), nat (py_norm_index cols c)), v))"

definition write_in_range :: "nat \<Rightarrow> nat \<Rightarrow> int \<times> int \<times> cell \<Rightarrow> bool" where
  "write_in_range rows cols w \<longleftrightarrow> (case w of (r, c, v) \<Rightarrow> py_in_range rows r \<and> py_in_range cols c)"

definition apply_writes ::
  "nat \<Rightarrow> nat \<Rightarrow> cell list list \<Rightarrow> (int \<times> int \<times> cell) list \<Rightarrow> cell list list" where
  "apply_writes rows cols g ws =
     fold (\<lambda>w g. case cell_pos rows cols w of ((i, j), v) \<Rightarrow> upd_cell g i j v) ws g"

lemma grid_shape_upd_cell:
  "grid_shape rows cols g \<Longrightarrow> i < rows \<Longrightarrow> grid_shape rows cols (upd_cell g i j v)"
  by (simp add: upd_cell_def grid_shape_update grid_shape_nth)

lemma upd_cell_nth:
  assumes "grid_shape rows cols g" "i < rows" "j < cols" "i' < rows"
  shows "upd_cell g i j v ! i' ! j' = (if (i', j') = (i, j) then v else g ! i' ! j')"
  using assms by (auto simp: upd_cell_def grid_shape_def list_all_length nth_list_update)

lemma set_cell_ok:
  assumes "grid_shape rows cols (board s)" "py_in_range rows r" "py_in_range cols c"
  shows "set_cell s r c v =
    Inr (s\<lparr>board := upd_cell (board s) (nat (py_norm_index rows r)) (nat (py_norm_index cols c)) v\<rparr>)"
proof -
  have rows: "length (board s) = rows" using assms(1) by (simp add: grid_shape_def)
  have len: "length (board s ! nat (py_norm_index rows r)) = cols"
    using assms(1,2) by (simp add: grid_shape_nth nat_norm_less)
  show ?thesis
    using assms(2,3) by (simp add: set_cell_def rows len py_getitem_ok py_setitem_ok upd_cell_def)
qed

lemma set_cell_error:
  assumes "grid_shape rows cols (board s)" "\<not> (py_in_range rows r \<and> py_in_range cols c)"
  shows "set_cell s r c v = Inl IndexError"
proof (cases "py_in_range rows r")
  case True
  have rows: "length (board s) = rows" using assms(1) by (simp add: grid_shape_def)
  have len: "length (board s ! nat (py_norm_index rows r)) = cols"
    using assms(1) True by (simp add: grid_shape_nth nat_norm_less)
  with True assms(2) show ?thesis
    by (simp add: set_cell_def rows py_getitem_ok py_setitem_error)
next
  case False
  with assms(1) show ?thesis
    by (simp add: set_cell_def grid_shape_def py_getitem_error)
qed

lemma write_cells_concat:
  "write_cells s (concat (map g xs)) = for_each (\<lambda>s x. write_cells s (g x)) s xs"
  by (simp add: write_cells_def for_each_concat)

lemma write_in_range_pos:
  "write_in_range rows cols w \<Longrightarrow> cell_pos rows cols w = ((i, j), v) \<Longrightarrow> i < rows \<and> j < cols"
  by (auto simp: write_in_range_def cell_pos_def nat_norm_less split: prod.splits)

lemma write_cells_ok:
  assumes "grid_shape rows cols (board s)" "list_all (write_in_range rows cols) ws"
  shows "write_cells s ws = Inr (s\<lparr>board := apply_writes rows cols (board s) ws\<rparr>)
    \<and> grid_shape rows cols (apply_writes rows cols (board s) ws)"
  using assms
proof (induction ws arbitrary: s)
  case Nil
  then show ?case by (simp add: write_cells_def apply_writes_def)
next
  case (Cons w ws)
  obtain r c v where w: "w = (r, c, v)" by (cases w) auto
  let ?i = "nat (py_norm_index rows r)" and ?j = "nat (py_norm_index cols c)"
  let ?s = "s\<lparr>board := upd_cell (board s) ?i ?j v\<rparr>"
  from Cons.prems have inr: "py_in_range rows r" "py_in_range cols c"
    by (simp_all add: w write_in_range_def)
  have step: "set_cell s r c v = Inr ?s"
    using Cons.prems(1) inr by (rule set_cell_ok)
  have shape: "grid_shape rows cols (board ?s)"
    using Cons.prems(1) inr by (simp add: grid_shape_upd_cell nat_norm_less)
  have "list_all (write_in_range rows cols) ws" using Cons.prems(2) by simp
  from Cons.IH [OF shape this] show ?case
    by (simp add: w write_cells_def apply_writes_def step cell_pos_def)
qed

lemma write_cells_error:
  assumes "grid_shape rows cols (board s)" "\<not> list_all (write_in_range rows cols) ws"
  shows "write_cells s ws = Inl IndexError"
  using assms
proof (induction ws arbitrary: s)
  case Nil
  then show ?case by simp
next
  case (Cons w ws)
  obtain r c v where w: "w = (r, c, v)" by (cases w) auto
  show ?case
  proof (cases "write_in_range rows cols w")
    case True
    then have inr: "py_in_range rows r" "py_in_range cols c"
      by (simp_all add: w write_in_range_def)
    let ?s = "s\<lparr>board := upd_cell (board s) (nat (py_norm_index rows r)) (nat (py_norm_index cols c)) v\<rparr>"
    have step: "set_cell s r c v = Inr ?s"
      using Cons.prems(1) inr by (rule set_cell_ok)
    have shape: "grid_shape rows cols (board ?s)"
      using Cons.prems(1) inr by (simp add: grid_shape_upd_cell nat_norm_less)
    have "\<not> list_all (write_in_range rows cols) ws" using Cons.prems(2) True by simp
    from Cons.IH [OF shape this] show ?thesis
      by (simp add: w write_cells_def step)
  next
    case False
    then have "set_cell s r c v = Inl IndexError"
      using Cons.prems(1) by (intro set_cell_error) (simp_all add: w write_in_range_def)
    then show ?thesis by (simp add: w write_cells_def)
  qed
qed

text \<open>After the writes, a cell holds the last value written to it, or its old value.\<close>

lemma apply_writes_nth:
  assumes "grid_shape rows cols g" "list_all (write_in_range rows cols) ws"
    and "i < rows" "j < cols"
  shows "apply_writes rows cols g ws ! i ! j =
    (case map_of (rev (map (cell_pos rows cols) ws)) (i, j) of None \<Rightarrow> g ! i ! j | Some v \<Rightarrow> v)"
  using assms
proof (induction ws rule: rev_induct)
  case Nil
  then show ?case by (simp add: apply_writes_def)
next
  case (snoc w ws)
  obtain i' j' v where pos: "cell_pos rows cols w = ((i', j'), v)"
    by (metis prod.exhaust)
  have inr: "i' < rows" "j' < cols"
    using write_in_range_pos [of rows cols w i' j' v] snoc.prems(2) pos by simp_all
  have ws: "list_all (write_in_range rows cols) ws" using snoc.prems(2) by simp
  have shape: "grid_shape rows cols (apply_writes rows cols g ws)"
    using write_cells_ok [of rows cols "\<lparr>board = g\<rparr>" ws] snoc.prems(1) ws by simp
  have "apply_writes rows cols g (ws @ [w]) = upd_cell (apply_writes rows cols g ws) i' j' v"
    by (simp add: apply_writes_def pos)
  then show ?case
    using upd_cell_nth [OF shape inr snoc.prems(3)] snoc.IH [OF snoc.prems(1) ws snoc.prems(3,4)] pos
    by simp
qed

lemma write_cells_append:
  "write_cells s (xs @ ys) = rbind (write_cells s xs) (\<lambda>s'. write_cells s' ys)"
  by (simp add: write_cells_def for_each_append)

text \<open>
  A constructor whose population is a fixed sequence of writes succeeds exactly when
  every write is in range, with the writes applied to the fresh grid.
\<close>

lemma abstract_init_write_cells:
  assumes "\<And>s. populate s = write_cells s ws"
  shows "abstract_init populate rows columns =
    (if list_all (write_in_range (nat rows) (nat columns)) ws
     then Inr \<lparr>board = apply_writes (nat rows) (nat columns) (new_grid rows columns) ws\<rparr>
     else Inl IndexError)"
  using write_cells_ok [of "nat rows" "nat columns" "\<lparr>board = new_grid rows columns\<rparr>" ws]
    write_cells_error [of "nat rows" "nat columns" "\<lparr>board = new_grid rows columns\<rparr>" ws]
    grid_shape_new_grid [of rows columns]
  by (simp add: abstract_init_def assms)

text \<open>On a fresh grid, writes that put \<open>f i j\<close> at each cell give the table of \<open>f\<close>.\<close>

lemma apply_writes_fresh:
  assumes "list_all (write_in_range rows cols) ws"
    and "\<And>i j. i < rows \<Longrightarrow> j < cols \<Longrightarrow>
           map_of (rev (map (cell_pos rows cols) ws)) (i, j) = map_option Some (f i j)"
  shows "apply_writes rows cols (replicate rows (replicate cols None)) ws =
    map (\<lambda>i. map (\<lambda>j. f i j) [0..<cols]) [0..<rows]"
proof -
  let ?g = "replicate rows (replicate cols (None :: cell))"
  have shape: "grid_shape rows cols ?g" by (rule grid_shape_replicate)
  have shape': "grid_shape rows cols (apply_writes rows cols ?g ws)"
    using write_cells_ok [of rows cols "\<lparr>board = ?g\<rparr>" ws] shape assms(1) by simp
  show ?thesis
  proof (rule nth_equalityI)
    show "length (apply_writes rows cols ?g ws) = length (map (\<lambda>i. map (f i) [0..<cols]) [0..<rows])"
      using shape' by (simp add: grid_shape_def)
  next
    fix i assume "i < length (apply_writes rows cols ?g ws)"
    then have i: "i < rows" using shape' by (simp add: grid_shape_def)
    show "apply_writes rows cols ?g ws ! i = map (\<lambda>i. map (f i) [0..<cols]) [0..<rows] ! i"
    proof (rule nth_equalityI)
      show "length (apply_writes rows cols ?g ws ! i) = length (map (\<lambda>i. map (f i) [0..<cols]) [0..<rows] ! i)"
        using grid_shape_nth [OF shape' i] i by simp
    next
      fix j assume "j < length (apply_writes rows cols ?g ws ! i)"
      then have j: "j < cols" using grid_shape_nth [OF shape' i] by simp
      show "apply_writes rows cols ?g ws ! i ! j = map (\<lambda>i. map (f i) [0..<cols]) [0..<rows] ! i ! j"
        using apply_writes_nth [OF shape assms(1) i j] assms(2) [OF i j] i j
        by (cases "f i j") simp_all
    qed
  qed
qed

subsection \<open>Rendering\<close>

definition row_text :: "pystr \<Rightarrow> nat \<Rightarrow> cell list \<Rightarrow> pystr" where
  "row_text platform y row =
     concat (map (\<lambda>(x, piece). console platform piece (square_background y x)) (enumerate 0 row)) @ [NL]"

lemma board_str_rows:
  "board_str platform self = concat (map (\<lambda>(y, row). row_text platform y row) (enumerate 0 (board self)))"
  by (simp add: board_str_def board_squares_def row_text_def concat_concat_map split_def)

lemma strip_sgr_row_text:
  assumes "\<forall>c\<in>set row. ESC \<notin> set (py_or_empty c)"
  shows "strip_sgr (row_text p y row @ t) = concat (map py_or_empty row) @ [NL] @ strip_sgr t"
proof -
  have "strip_sgr (concat (map (\<lambda>(x, piece). console p piece (square_background y x)) (enumerate 0 row))
          @ [NL] @ t) =
        concat (map (\<lambda>(x, piece). py_or_empty piece) (enumerate 0 row)) @ strip_sgr ([NL] @ t)"
    using assms by (intro strip_sgr_concat) (auto simp: strip_sgr_console_append in_set_enumerate_eq)
  then show ?thesis by (simp add: row_text_def map_enumerate_snd)
qed

lemma console_no_NL: "NL \<notin> set (py_or_empty c) \<Longrightarrow> NL \<notin> set (console p c bg)"
  by (cases "is_win p") (simp_all add: console_win console_posix)

lemma row_text_count_NL:
  assumes "\<forall>c\<in>set row. NL \<notin> set (py_or_empty c)"
  shows "count_list (row_text p y row) NL = 1"
proof -
  have "NL \<notin> set (concat (map (\<lambda>(x, piece). console p piece (square_background y x)) (enumerate 0 row)))"
    using assms by (auto simp: in_set_enumerate_eq dest: console_no_NL)
  then show ?thesis by (simp add: row_text_def count_list_0_iff)
qed

lemma count_list_concat:
  "count_list (concat xss) a = sum_list (map (\<lambda>xs. count_list xs a) xss)"
  by (induction xss) simp_all

lemma strip_sgr_board_str_append:
  assumes "\<forall>row\<in>set (board s). \<forall>c\<in>set row. ESC \<notin> set (py_or_empty c)" "is_win q"
  shows "strip_sgr (board_str p s @ t) = board_str q s @ strip_sgr t"
proof -
  let ?plain = "\<lambda>(y, row). concat (map py_or_empty row) @ [NL]"
  have rows: "strip_sgr ((\<lambda>(y, row). row_text p y row) w @ t) = ?plain w @ strip_sgr t"
    if "w \<in> set (enumerate 0 (board s))" for w t
  proof -
    obtain y row where w: "w = (y, row)" by (cases w)
    with that have "row \<in> set (board s)" by (auto simp: in_set_enumerate_eq)
    with assms(1) w show ?thesis by (simp add: strip_sgr_row_text)
  qed
  have "strip_sgr (concat (map (\<lambda>(y, row). row_text p y row) (enumerate 0 (board s))) @ t) =
        concat (map ?plain (enumerate 0 (board s))) @ strip_sgr t"
    using rows by (rule strip_sgr_concat)
  moreover have "board_str q s = concat (map ?plain (enumerate 0 (board s)))"
    using assms(2) by (simp add: board_str_rows row_text_def console_win map_enumerate_snd case_prod_beta)
  ultimately show ?thesis by (simp add: board_str_rows)
qed

subsection \<open>Properties\<close>

text \<open>
  C14: the background \<^verbatim>\<open>__str__\<close> gives a square alternates along rows and columns:
  horizontally or vertically adjacent squares never share a background.
\<close>

theorem square_background_alternates:
  "square_background y x \<noteq> square_background y (Suc x) \<and>
   square_background y x \<noteq> square_background (Suc y) x"
  by (simp add: square_background_def) presburger

text \<open>
  C12: ignoring the colour escape sequences, the coloured rendering of a board is the
  plain (Windows) rendering, whenever no cell's text itself contains ESC.
\<close>

theorem board_str_strip_sgr:
  assumes "\<forall>row\<in>set (board s). \<forall>c\<in>set row. ESC \<notin> set (py_or_empty c)" "is_win q"
  shows "strip_sgr (board_str p s) = board_str q s"
  using strip_sgr_board_str_append [OF assms, of p "[]"] by simp

theorem board_str_strip_sgr_witness:
  "ESC \<notin> set [65::nat] \<and> is_win (py_str ''win32'') \<and>
   strip_sgr (board_str (py_str ''linux'') \<lparr>board = [[Some [65], None]]\<rparr>) = [65, NL]"
proof -
  have cells: "\<forall>row\<in>set (board \<lparr>board = [[Some [65], None :: cell]]\<rparr>). \<forall>c\<in>set row. ESC \<notin> set (py_or_empty c)"
    by simp
  have win: "is_win (py_str ''win32'')" by (simp add: is_win_def)
  have "board_str (py_str ''win32'') \<lparr>board = [[Some [65], None]]\<rparr> = [65, NL]"
    using win by (simp add: board_str_rows row_text_def console_win)
  then show ?thesis
    using board_str_strip_sgr [OF cells win, of "py_str ''linux''"] win by simp
qed

text \<open>
  C15: the rendering has one line per row: when no cell's text holds a line feed,
  \<^verbatim>\<open>str(board)\<close> contains exactly as many line feeds as the grid has rows, on every
  platform.
\<close>

theorem board_str_line_count:
  assumes "\<forall>row\<in>set (board s). \<forall>c\<in>set row. NL \<notin> set (py_or_empty c)"
  shows "count_list (board_str p s) NL = length (board s)"
proof -
  have "count_list ((\<lambda>(y, row). row_text p y row) w) NL = 1"
    if "w \<in> set (enumerate 0 (board s))" for w
  proof -
    obtain y row where w: "w = (y, row)" by (cases w)
    with that have "row \<in> set (board s)" by (auto simp: in_set_enumerate_eq)
    with assms w show ?thesis by (simp add: row_text_count_NL)
  qed
  then have "map (\<lambda>w. count_list ((\<lambda>(y, row). row_text p y row) w) NL) (enumerate 0 (board s)) =
             replicate (length (board s)) 1"
    by (simp add: map_replicate_const cong: map_cong)
  then show ?thesis
    by (simp add: board_str_rows count_list_concat comp_def sum_list_replicate)
qed

theorem board_str_line_count_witness:
  "NL \<notin> set [65::nat] \<and> NL \<notin> set [66::nat] \<and>
   count_list (board_str (py_str ''linux'') \<lparr>board = [[None, Some [65]], [Some [66], None]]\<rparr>) NL = 2"
  using board_str_line_count [of "\<lparr>board = [[None, Some [65]], [Some [66], None :: cell]]\<rparr>" "py_str ''linux''"]
  by simp

text \<open>
  C23: \<^verbatim>\<open>AbstractBoard(rows, columns)\<close> itself, whose \<^verbatim>\<open>populate_board\<close> is not
  overridden, always raises \<^verbatim>\<open>NotImplementedError\<close>: the spec's programming-contract
  error for a board without a variant.
\<close>

theorem abstract_board_not_implemented:
  "abstract_init abstract_populate_board rows columns = Inl NotImplementedError"
  by (simp add: abstract_init_def abstract_populate_board_def)

end
