(* ===== verification/Checkers.thy ===== *)
theory Checkers
  imports Board
begin

text \<open>
  \<^verbatim>\<open>CheckersBoard\<close>, lines 197--208 of \<^verbatim>\<open>gameboard1.py\<close>: a 10 by 10 board whose
  \<^verbatim>\<open>populate_board\<close> runs \<^verbatim>\<open>for x in range(0, 9, 2): for row in range(4):\<close> and
  writes a black draught at \<^verbatim>\<open>(row, column)\<close> and a white one at
  \<^verbatim>\<open>(row + 6, column)\<close>, where \<^verbatim>\<open>column = x + ((row + 1) % 2)\<close>.

  \<open>checkers_writes\<close> lists the forty writes of the two loops in order, and
  \<open>checkers_populate_writes\<close> shows the loops are exactly that sequence of writes.
  \<open>checkers_spec\<close> is the layout the spec describes: black on the odd squares
  (\<open>i + j\<close> odd) of rows 0--3, white on the odd squares of rows 6--9.
\<close>

definition checkers_iteration :: "board_obj \<Rightarrow> int \<Rightarrow> int \<Rightarrow> board_obj result" where
  "checkers_iteration self x row =
     (let column = x + ((row + 1) mod 2)
      in rbind (set_cell self row column (Some (piece_new BlackDraught))) (\<lambda>self.
         set_cell self (row + 6) column (Some (piece_new WhiteDraught))))"

definition checkers_populate_board :: "board_obj \<Rightarrow> board_obj result" where
  "checkers_populate_board self =
     rbind (py_range 0 9 2) (\<lambda>xs.
       for_each (\<lambda>self x. for_each (\<lambda>self row. checkers_iteration self x row) self (py_range1 4))
       self xs)"

definition checkers_init :: "board_obj result" where
  "checkers_init = abstract_init checkers_populate_board 10 10"

definition checkers_iteration_writes :: "int \<Rightarrow> int \<Rightarrow> (int \<times> int \<times> cell) list" where
  "checkers_iteration_writes x row =
     [(row, x + ((row + 1) mod 2), Some (piece_new BlackDraught)),
      (row + 6, x + ((row + 1) mod 2), Some (piece_new WhiteDraught))]"

definition checkers_writes :: "(int \<times> int \<times> cell) list" where
  "checkers_writes =
     concat (map (\<lambda>x. concat (map (checkers_iteration_writes x) [0, 1, 2, 3])) [0, 2, 4, 6, 8])"

definition checkers_spec :: "nat \<Rightarrow> nat \<Rightarrow> piece_class option" where
  "checkers_spec i j =
     (if j < 10 \<and> odd (i + j) then
        (if i < 4 then Some BlackDraught
         else if 6 \<le> i \<and> i < 10 then Some WhiteDraught
         else None)
      else None)"

definition checkers_layout :: "nat \<Rightarrow> nat \<Rightarrow> cell list list" where
  "checkers_layout rows cols =
     map (\<lambda>i. map (\<lambda>j. map_option piece_new (checkers_spec i j)) [0..<cols]) [0..<rows]"

subsection \<open>The loops are a sequence of writes\<close>

lemma checkers_iteration_writes:
  "checkers_iteration s x = (\<lambda>row. write_cells s (checkers_iteration_writes x row))"
  by (simp add: fun_eq_iff checkers_iteration_def checkers_iteration_writes_def write_cells_def Let_def)

lemma checkers_populate_writes:
  "checkers_populate_board s = write_cells s checkers_writes"
proof -
  have r: "py_range 0 9 2 = Inr [0, 2, 4, 6, 8]"
    by (simp add: py_range_def range_len_def upt_rec)
  have r4: "py_range1 4 = [0, 1, 2, 3]"
    by (simp add: py_range1_def upt_rec)
  show ?thesis
    unfolding checkers_populate_board_def checkers_writes_def
    by (simp only: r r4 rbind_simps write_cells_concat checkers_iteration_writes)
qed

lemma checkers_writes_nonneg:
  "list_all (\<lambda>(r, c, v). 0 \<le> r \<and> 0 \<le> c \<and> r < 10 \<and> c < 10) checkers_writes"
  by (simp add: checkers_writes_def checkers_iteration_writes_def)

lemma checkers_writes_in_range:
  "list_all (write_in_range rows cols) checkers_writes \<longleftrightarrow> 10 \<le> rows \<and> 10 \<le> cols"
proof
  assume "list_all (write_in_range rows cols) checkers_writes"
  moreover have "(9, 8, Some (piece_new WhiteDraught)) \<in> set checkers_writes"
    and "(0, 9, Some (piece_new BlackDraught)) \<in> set checkers_writes"
    by (simp_all add: checkers_writes_def checkers_iteration_writes_def)
  ultimately show "10 \<le> rows \<and> 10 \<le> cols"
    by (fastforce simp: list_all_iff write_in_range_def)
next
  assume "10 \<le> rows \<and> 10 \<le> cols"
  then show "list_all (write_in_range rows cols) checkers_writes"
    using checkers_writes_nonneg
    by (auto simp: list_all_iff write_in_range_def)
qed

lemma checkers_cell_pos:
  "map (cell_pos rows cols) checkers_writes = map (cell_pos 0 0) checkers_writes"
  using checkers_writes_nonneg
  by (auto simp: list_all_iff cell_pos_def intro!: map_cong)

lemma checkers_written_table:
  "list_all (\<lambda>i. list_all (\<lambda>j.
     map_of (rev (map (cell_pos 0 0) checkers_writes)) (i, j) =
     map_option (\<lambda>p. Some (piece_new p)) (checkers_spec i j)) [0..<10]) [0..<10]"
  by (simp add: checkers_writes_def checkers_iteration_writes_def cell_pos_def
      checkers_spec_def upt_rec)

lemma checkers_written_keys:
  "list_all (\<lambda>((a, b), v). a < 10 \<and> b < 10) (rev (map (cell_pos 0 0) checkers_writes))"
  by (simp add: checkers_writes_def checkers_iteration_writes_def cell_pos_def)

lemma checkers_written:
  "map_of (rev (map (cell_pos rows cols) checkers_writes)) (i, j) =
   map_option (\<lambda>p. Some (piece_new p)) (checkers_spec i j)"
proof -
  have "map_of (rev (map (cell_pos 0 0) checkers_writes)) (i, j) =
        map_option (\<lambda>p. Some (piece_new p)) (checkers_spec i j)"
    by (rule map_of_table [OF checkers_written_table checkers_written_keys])
      (simp add: checkers_spec_def)
  then show ?thesis
    by (subst checkers_cell_pos)
qed

lemma checkers_populate_apply:
  assumes "grid_shape rows cols (board s)" "10 \<le> rows" "10 \<le> cols"
  shows "checkers_populate_board s = Inr (s\<lparr>board := apply_writes rows cols (board s) checkers_writes\<rparr>)
    \<and> grid_shape rows cols (apply_writes rows cols (board s) checkers_writes)"
  using write_cells_ok [OF assms(1)] assms(2,3)
  by (simp add: checkers_populate_writes checkers_writes_in_range)

lemma checkers_apply_nth:
  assumes "grid_shape rows cols g" "10 \<le> rows" "10 \<le> cols" "i < rows" "j < cols"
  shows "apply_writes rows cols g checkers_writes ! i ! j =
    (case checkers_spec i j of None \<Rightarrow> g ! i ! j | Some p \<Rightarrow> Some (piece_new p))"
  using apply_writes_nth [OF assms(1) _ assms(4,5), of checkers_writes] assms(2,3)
  by (simp add: checkers_writes_in_range checkers_written split: option.splits)

lemma checkers_init_grid:
  "abstract_init checkers_populate_board rows columns =
     (if 10 \<le> rows \<and> 10 \<le> columns
      then Inr \<lparr>board = checkers_layout (nat rows) (nat columns)\<rparr> else Inl IndexError)"
proof -
  have "apply_writes (nat rows) (nat columns) (new_grid rows columns) checkers_writes =
        checkers_layout (nat rows) (nat columns)"
    if "10 \<le> rows \<and> 10 \<le> columns"
    unfolding new_grid_replicate checkers_layout_def
    using that checkers_written
    by (intro apply_writes_fresh) (simp_all add: checkers_writes_in_range le_nat_iff option.map_comp o_def)
  then show ?thesis
    by (simp add: abstract_init_write_cells [OF checkers_populate_writes] checkers_writes_in_range le_nat_iff)
qed

lemma checkers_layout_nth:
  "i < rows \<Longrightarrow> j < cols \<Longrightarrow> checkers_layout rows cols ! i ! j = map_option piece_new (checkers_spec i j)"
  by (simp add: checkers_layout_def)

subsection \<open>Properties\<close>

text \<open>
  C1: \<^verbatim>\<open>CheckersBoard()\<close> returns (raises nothing) and its grid is exactly the spec's
  layout: a black draught on each square of rows 0--3 with \<open>i + j\<close> odd, a white
  draught on each such square of rows 6--9, every other cell \<^verbatim>\<open>None\<close>.
\<close>

theorem checkers_init_layout: "checkers_init = Inr \<lparr>board = checkers_layout 10 10\<rparr>"
  by (simp add: checkers_init_def checkers_init_grid)

text \<open>
  C9: \<^verbatim>\<open>CheckersBoard.populate_board\<close> on any rectangular grid of at least 10 by 10
  cells succeeds, keeps the grid's dimensions, places exactly the spec's draughts and
  leaves every other cell as it was.
\<close>

theorem checkers_populate_board_overwrites:
  assumes "grid_shape rows cols (board s)" "10 \<le> rows" "10 \<le> cols"
  shows "\<exists>s'. checkers_populate_board s = Inr s' \<and> grid_shape rows cols (board s') \<and>
    (\<forall>i<rows. \<forall>j<cols. board s' ! i ! j =
       (case checkers_spec i j of None \<Rightarrow> board s ! i ! j | Some p \<Rightarrow> Some (piece_new p)))"
  using checkers_populate_apply [OF assms] checkers_apply_nth [OF assms(1,2,3)] by simp

theorem checkers_populate_board_overwrites_witness:
  "grid_shape 12 11 (replicate 12 (replicate 11 (Some [65::nat]))) \<and>
   (\<exists>s'. checkers_populate_board \<lparr>board = replicate 12 (replicate 11 (Some [65]))\<rparr> = Inr s' \<and>
     grid_shape 12 11 (board s') \<and>
     board s' ! 0 ! 1 = Some (piece_new BlackDraught) \<and> board s' ! 9 ! 8 = Some (piece_new WhiteDraught) \<and>
     board s' ! 0 ! 0 = Some [65] \<and> board s' ! 11 ! 10 = Some [65])"
proof -
  have shape: "grid_shape 12 11 (board \<lparr>board = replicate 12 (replicate 11 (Some [65]))\<rparr>)"
    by (simp add: grid_shape_replicate)
  have ex: "\<exists>s'. checkers_populate_board \<lparr>board = replicate 12 (replicate 11 (Some [65]))\<rparr> = Inr s' \<and>
    grid_shape 12 11 (board s') \<and>
    (\<forall>i<12. \<forall>j<11. board s' ! i ! j = (case checkers_spec i j of
       None \<Rightarrow> board \<lparr>board = replicate 12 (replicate 11 (Some [65]))\<rparr> ! i ! j
     | Some p \<Rightarrow> Some (piece_new p)))"
    by (rule checkers_populate_board_overwrites [OF shape]) simp_all
  obtain s' where ok: "checkers_populate_board \<lparr>board = replicate 12 (replicate 11 (Some [65]))\<rparr> = Inr s'"
    and shape': "grid_shape 12 11 (board s')"
    and cells: "\<forall>i<12. \<forall>j<11. board s' ! i ! j = (case checkers_spec i j of
       None \<Rightarrow> board \<lparr>board = replicate 12 (replicate 11 (Some [65]))\<rparr> ! i ! j
     | Some p \<Rightarrow> Some (piece_new p))"
    using ex by blast
  have "board s' ! 0 ! 1 = Some (piece_new BlackDraught)" "board s' ! 9 ! 8 = Some (piece_new WhiteDraught)"
    "board s' ! 0 ! 0 = Some [65]" "board s' ! 11 ! 10 = Some [65]"
    using cells by (simp_all add: checkers_spec_def)
  with ok shape' shape show ?thesis by auto
qed

text \<open>
  C10: \<^verbatim>\<open>AbstractBoard.__init__(rows, columns)\<close> with the checkers population
  raises \<^verbatim>\<open>IndexError\<close> exactly when the grid is smaller than 10 by 10.
\<close>

theorem checkers_board_too_small:
  "abstract_init checkers_populate_board rows columns = Inl IndexError \<longleftrightarrow> rows < 10 \<or> columns < 10"
  by (auto simp: checkers_init_grid)

text \<open>
  C20: the board \<^verbatim>\<open>CheckersBoard()\<close> builds holds 20 black draughts, 20 white draughts
  and 60 empty cells.
\<close>

theorem checkers_init_counts:
  "\<exists>b. checkers_init = Inr b \<and>
     count_list (concat (board b)) (Some (piece_new BlackDraught)) = 20 \<and>
     count_list (concat (board b)) (Some (piece_new WhiteDraught)) = 20 \<and>
     count_list (concat (board b)) None = 60"
  by (simp add: checkers_init_def checkers_init_grid checkers_layout_def checkers_spec_def upt_rec)

text \<open>
  C21: every draught of \<^verbatim>\<open>CheckersBoard()\<close> stands on a square that
  \<^verbatim>\<open>__str__\<close> paints with the \<^verbatim>\<open>BLACK\<close> background: all pieces share one square colour.
\<close>

theorem checkers_pieces_on_dark_squares:
  "\<exists>b. checkers_init = Inr b \<and>
     (\<forall>i<10. \<forall>j<10. board b ! i ! j \<noteq> None \<longrightarrow> square_background i j = BLACK)"
  by (auto simp: checkers_init_def checkers_init_grid checkers_layout_nth checkers_spec_def
      square_background_def split: if_splits)

theorem checkers_pieces_on_dark_squares_witness:
  "\<exists>b. checkers_init = Inr b \<and> board b ! 0 ! 1 \<noteq> None \<and> square_background 0 1 = BLACK"
proof -
  obtain b where b: "checkers_init = Inr b"
    and dark: "\<forall>i<10. \<forall>j<10. board b ! i ! j \<noteq> None \<longrightarrow> square_background i j = BLACK"
    using checkers_pieces_on_dark_squares by blast
  have "b = \<lparr>board = checkers_layout 10 10\<rparr>"
    using b by (simp add: checkers_init_def checkers_init_grid)
  then have "board b ! 0 ! 1 \<noteq> None"
    by (simp add: checkers_layout_nth checkers_spec_def)
  with dark b show ?thesis by auto
qed

end
