(* ===== verification/Chess.thy ===== *)
theory Chess
  imports Board
begin

text \<open>
  \<^verbatim>\<open>ChessBoard\<close>, lines 210--239 of \<^verbatim>\<open>gameboard1.py\<close>: an 8 by 8 board whose
  \<^verbatim>\<open>populate_board\<close> runs sixteen assignment statements, the black back rank on row 0
  and the white one on row 7, and then \<^verbatim>\<open>for column in range(8):\<close> puts a black pawn
  on row 1 and a white pawn on row 6. A straight-line block of assignments is the loop
  \<open>write_cells\<close> over the list of its statements, in the order written.

  \<open>chess_spec\<close> is the spec's layout (\<^verbatim>\<open>spec.md\<close> 4.2) in the spec's own terms: a
  colour and a kind per square, the back rank being rook, knight, bishop, queen, king,
  bishop, knight, rook. The glyph the spec expects on a square is \<open>spec_glyph\<close> of that
  pair, so the layout theorem also checks the classes against the spec's catalog.
\<close>

definition chess_back_ranks :: "(int \<times> int \<times> cell) list" where
  "chess_back_ranks =
     [(0, 0, Some (piece_new BlackChessRook)),
      (0, 1, Some (piece_new BlackChessKnight)),
      (0, 2, Some (piece_new BlackChessBishop)),
      (0, 3, Some (piece_new BlackChessQueen)),
      (0, 4, Some (piece_new BlackChessKing)),
      (0, 5, Some (piece_new BlackChessBishop)),
      (0, 6, Some (piece_new BlackChessKnight)),
      (0, 7, Some (piece_new BlackChessRook)),
      (7, 0, Some (piece_new WhiteChessRook)),
      (7, 1, Some (piece_new WhiteChessKnight)),
      (7, 2, Some (piece_new WhiteChessBishop)),
      (7, 3, Some (piece_new WhiteChessQueen)),
      (7, 4, Some (piece_new WhiteChessKing)),
      (7, 5, Some (piece_new WhiteChessBishop)),
      (7, 6, Some (piece_new WhiteChessKnight)),
      (7, 7, Some (piece_new WhiteChessRook))]"

definition chess_pawn_iteration :: "board_obj \<Rightarrow> int \<Rightarrow> board_obj result" where
  "chess_pawn_iteration self column =
     rbind (set_cell self 1 column (Some (piece_new BlackChessPawn))) (\<lambda>self.
     set_cell self 6 column (Some (piece_new WhiteChessPawn)))"

definition chess_populate_board :: "board_obj \<Rightarrow> board_obj result" where
  "chess_populate_board self =
     rbind (write_cells self chess_back_ranks) (\<lambda>self.
     for_each chess_pawn_iteration self (py_range1 8))"

definition chess_init :: "board_obj result" where
  "chess_init = abstract_init chess_populate_board 8 8"

subsection \<open>The spec's layout\<close>

definition back_rank :: "kind list" where
  "back_rank = [Rook, Knight, Bishop, Queen, King, Bishop, Knight, Rook]"

definition chess_spec :: "nat \<Rightarrow> nat \<Rightarrow> (color \<times> kind) option" where
  "chess_spec i j =
     (if j < 8 then
        (if i = 0 then Some (BLACK, back_rank ! j)
         else if i = 1 then Some (BLACK, Pawn)
         else if i = 6 then Some (WHITE, Pawn)
         else if i = 7 then Some (WHITE, back_rank ! j)
         else None)
      else None)"

definition chess_layout :: "nat \<Rightarrow> nat \<Rightarrow> cell list list" where
  "chess_layout rows cols =
     map (\<lambda>i. map (\<lambda>j. map_option (\<lambda>(c, k). spec_glyph c k) (chess_spec i j)) [0..<cols])
       [0..<rows]"

text \<open>How many pieces of a kind each side has in the spec's starting position.\<close>

primrec chess_count :: "kind \<Rightarrow> nat" where
  "chess_count Draught = 0"
| "chess_count King = 1"
| "chess_count Queen = 1"
| "chess_count Rook = 2"
| "chess_count Bishop = 2"
| "chess_count Knight = 2"
| "chess_count Pawn = 8"

subsection \<open>The population is a sequence of writes\<close>

definition chess_pawn_writes :: "int \<Rightarrow> (int \<times> int \<times> cell) list" where
  "chess_pawn_writes column =
     [(1, column, Some (piece_new BlackChessPawn)), (6, column, Some (piece_new WhiteChessPawn))]"

definition chess_writes :: "(int \<times> int \<times> cell) list" where
  "chess_writes = chess_back_ranks @ concat (map chess_pawn_writes [0, 1, 2, 3, 4, 5, 6, 7])"

lemma chess_pawn_iteration_writes:
  "chess_pawn_iteration s = (\<lambda>column. write_cells s (chess_pawn_writes column))"
  by (simp add: fun_eq_iff chess_pawn_iteration_def chess_pawn_writes_def write_cells_def)

lemma chess_populate_writes:
  "chess_populate_board s = write_cells s chess_writes"
proof -
  have r8: "py_range1 8 = [0, 1, 2, 3, 4, 5, 6, 7]"
    by (simp add: py_range1_def upt_rec)
  have "for_each chess_pawn_iteration s' (py_range1 8) =
        write_cells s' (concat (map chess_pawn_writes [0, 1, 2, 3, 4, 5, 6, 7]))" for s'
    unfolding r8 write_cells_concat chess_pawn_iteration_writes ..
  then show ?thesis
    by (simp add: chess_populate_board_def chess_writes_def write_cells_append)
qed

lemma chess_writes_bounds:
  "list_all (\<lambda>(r, c, v). 0 \<le> r \<and> 0 \<le> c \<and> r < 8 \<and> c < 8) chess_writes"
  by (simp add: chess_writes_def chess_back_ranks_def chess_pawn_writes_def)

lemma chess_writes_in_range:
  "list_all (write_in_range rows cols) chess_writes \<longleftrightarrow> 8 \<le> rows \<and> 8 \<le> cols"
proof
  assume "list_all (write_in_range rows cols) chess_writes"
  moreover have "(7, 0, Some (piece_new WhiteChessRook)) \<in> set chess_writes"
    and "(0, 7, Some (piece_new BlackChessRook)) \<in> set chess_writes"
    by (simp_all add: chess_writes_def chess_back_ranks_def)
  ultimately show "8 \<le> rows \<and> 8 \<le> cols"
    by (fastforce simp: list_all_iff write_in_range_def)
next
  assume "8 \<le> rows \<and> 8 \<le> cols"
  then show "list_all (write_in_range rows cols) chess_writes"
    using chess_writes_bounds by (auto simp: list_all_iff write_in_range_def)
qed

lemma chess_cell_pos:
  "map (cell_pos rows cols) chess_writes = map (cell_pos 0 0) chess_writes"
  using chess_writes_bounds by (auto simp: list_all_iff cell_pos_def intro!: map_cong)

lemma chess_written_table:
  "list_all (\<lambda>i. list_all (\<lambda>j.
     map_of (rev (map (cell_pos 0 0) chess_writes)) (i, j) =
     map_option (\<lambda>(c, k). Some (spec_glyph c k)) (chess_spec i j)) [0..<8]) [0..<8]"
  by (simp add: chess_writes_def chess_back_ranks_def chess_pawn_writes_def cell_pos_def
      chess_spec_def back_rank_def spec_glyph_def upt_rec)

lemma chess_written_keys:
  "list_all (\<lambda>((a, b), v). a < 8 \<and> b < 8) (rev (map (cell_pos 0 0) chess_writes))"
  by (simp add: chess_writes_def chess_back_ranks_def chess_pawn_writes_def cell_pos_def)

lemma chess_written:
  "map_of (rev (map (cell_pos rows cols) chess_writes)) (i, j) =
   map_option (\<lambda>(c, k). Some (spec_glyph c k)) (chess_spec i j)"
proof -
  have "map_of (rev (map (cell_pos 0 0) chess_writes)) (i, j) =
        map_option (\<lambda>(c, k). Some (spec_glyph c k)) (chess_spec i j)"
    by (rule map_of_table [OF chess_written_table chess_written_keys]) (simp add: chess_spec_def)
  then show ?thesis
    by (subst chess_cell_pos)
qed

lemma chess_init_grid:
  "abstract_init chess_populate_board rows columns =
     (if 8 \<le> rows \<and> 8 \<le> columns
      then Inr \<lparr>board = chess_layout (nat rows) (nat columns)\<rparr> else Inl IndexError)"
proof -
  have "apply_writes (nat rows) (nat columns) (new_grid rows columns) chess_writes =
        chess_layout (nat rows) (nat columns)"
    if "8 \<le> rows \<and> 8 \<le> columns"
    unfolding new_grid_replicate chess_layout_def
    using that chess_written
    by (intro apply_writes_fresh)
      (simp_all add: chess_writes_in_range option.map_comp o_def split_def)
  then show ?thesis
    by (simp add: abstract_init_write_cells [OF chess_populate_writes] chess_writes_in_range)
qed

lemma chess_layout_nth:
  "i < rows \<Longrightarrow> j < cols \<Longrightarrow>
   chess_layout rows cols ! i ! j = map_option (\<lambda>(c, k). spec_glyph c k) (chess_spec i j)"
  by (simp add: chess_layout_def)

subsection \<open>Properties\<close>

text \<open>
  C2: \<^verbatim>\<open>ChessBoard()\<close> raises nothing and its grid is exactly the spec's starting
  position: on each square of rows 0, 1, 6 and 7 the glyph the spec's catalog gives for
  the colour and kind the spec places there, every other cell \<^verbatim>\<open>None\<close>.
\<close>

theorem chess_init_layout: "chess_init = Inr \<lparr>board = chess_layout 8 8\<rparr>"
  by (simp add: chess_init_def chess_init_grid)

text \<open>
  C11: \<^verbatim>\<open>AbstractBoard.__init__(rows, columns)\<close> with the chess population raises
  \<^verbatim>\<open>IndexError\<close> exactly when the grid is smaller than 8 by 8.
\<close>

theorem chess_board_too_small:
  "abstract_init chess_populate_board rows columns = Inl IndexError \<longleftrightarrow> rows < 8 \<or> columns < 8"
  by (auto simp: chess_init_grid)

text \<open>
  C18: the spec's scenario: in \<^verbatim>\<open>ChessBoard()\<close> the cell \<^verbatim>\<open>board[0][4]\<close> is
  \<^verbatim>\<open>"(BK)"\<close>, \<^verbatim>\<open>board[7][4]\<close> is \<^verbatim>\<open>"(WK)"\<close> and row 1 is eight \<^verbatim>\<open>"(BP)"\<close>.
\<close>

theorem chess_init_kings_and_pawns:
  "\<exists>b. chess_init = Inr b \<and>
     board b ! 0 ! 4 = Some (py_str ''(BK)'') \<and> board b ! 7 ! 4 = Some (py_str ''(WK)'') \<and>
     board b ! 1 = replicate 8 (Some (py_str ''(BP)''))"
  by (simp add: chess_init_def chess_init_grid chess_layout_def chess_spec_def back_rank_def
      spec_glyph_def upt_rec replicate_numeral)

text \<open>
  C19: \<^verbatim>\<open>ChessBoard()\<close> holds, for each class, as many pieces as the spec gives its
  colour and kind (eight pawns, two rooks, knights and bishops, one queen and one king
  per side, no draught), and 32 empty cells.
\<close>

theorem chess_init_counts:
  "\<exists>b. chess_init = Inr b \<and>
     (\<forall>p. count_list (concat (board b)) (Some (piece_new p)) = chess_count (piece_kind p)) \<and>
     count_list (concat (board b)) None = 32"
proof -
  let ?cells = "concat (chess_layout 8 8)"
  have cells: "?cells =
     map (\<lambda>k. Some (spec_glyph BLACK k)) back_rank @ replicate 8 (Some (spec_glyph BLACK Pawn)) @
     replicate 32 None @
     replicate 8 (Some (spec_glyph WHITE Pawn)) @ map (\<lambda>k. Some (spec_glyph WHITE k)) back_rank"
    by (simp add: chess_layout_def chess_spec_def back_rank_def upt_rec replicate_numeral)
  have "count_list ?cells (Some (piece_new p)) = chess_count (piece_kind p)" for p
    unfolding cells by (cases p) (simp_all add: back_rank_def spec_glyph_def replicate_numeral)
  moreover have "count_list ?cells None = 32"
    unfolding cells by (simp add: back_rank_def replicate_numeral)
  ultimately show ?thesis
    by (simp add: chess_init_def chess_init_grid)
qed

end
