(* ===== verification/Utf8.thy ===== *)
theory Utf8
  imports Prelude "HOL-Library.Word"
begin

text \<open>
  The UTF-8 codec the program calls when it writes its output file
  (\<^verbatim>\<open>open(filename, 'w', encoding='utf-8')\<close>, line 252 of \<^verbatim>\<open>gameboard1.py\<close>).
  It is CPython's, not the repository's: it is modelled from the spec ("UTF-8
  encoded") and the Unicode standard. Bytes are \<open>8 word\<close>s. The encoder
  raises \<^verbatim>\<open>UnicodeEncodeError\<close> on a lone surrogate (U+D800 to U+DFFF), as the
  strict codec does; code points past U+10FFFF cannot occur in a Python \<open>str\<close>
  and are refused too. The decoder reads a lead byte, the number of continuation bytes
  it announces, and accumulates six bits per continuation byte.

  \<open>utf8_decode_encode\<close> is the round trip: every string of valid code points encodes
  without error, and decoding gives it back. It is used to state what the program's
  file holds; the codec itself is a library the program only calls.
\<close>

type_synonym byte = "8 word"

text \<open>The byte with a given value (taken modulo 256).\<close>

definition byte_of :: "nat \<Rightarrow> byte" where
  "byte_of n = word_of_nat n"

definition valid_cp :: "nat \<Rightarrow> bool" where
  "valid_cp c \<longleftrightarrow> c < 0x110000 \<and> \<not> (0xD800 \<le> c \<and> c < 0xE000)"

definition utf8_encode_char :: "nat \<Rightarrow> byte list result" where
  "utf8_encode_char c =
     (if c < 0x80 then Inr [byte_of c]
      else if c < 0x800 then Inr [byte_of (0xC0 + c div 0x40), byte_of (0x80 + c mod 0x40)]
      else if c < 0x10000 then
        (if 0xD800 \<le> c \<and> c < 0xE000 then Inl UnicodeEncodeError
         else Inr [byte_of (0xE0 + c div 0x1000), byte_of (0x80 + c div 0x40 mod 0x40),
                   byte_of (0x80 + c mod 0x40)])
      else if c < 0x110000 then
        Inr [byte_of (0xF0 + c div 0x40000), byte_of (0x80 + c div 0x1000 mod 0x40),
             byte_of (0x80 + c div 0x40 mod 0x40), byte_of (0x80 + c mod 0x40)]
      else Inl UnicodeEncodeError)"

fun utf8_encode :: "pystr \<Rightarrow> byte list result" where
  "utf8_encode [] = Inr []"
| "utf8_encode (c # s) =
     rbind (utf8_encode_char c) (\<lambda>bs. rbind (utf8_encode s) (\<lambda>rest. Inr (bs @ rest)))"

definition utf8_lead :: "byte \<Rightarrow> (nat \<times> nat) option" where
  "utf8_lead b =
     (let n = unat b in
      if n < 0x80 then Some (0, n)
      else if n < 0xC0 then None
      else if n < 0xE0 then Some (1, n - 0xC0)
      else if n < 0xF0 then Some (2, n - 0xE0)
      else if n < 0xF8 then Some (3, n - 0xF0)
      else None)"

definition utf8_cont :: "byte \<Rightarrow> bool" where
  "utf8_cont b \<longleftrightarrow> 0x80 \<le> unat b \<and> unat b < 0xC0"

definition utf8_payload :: "nat \<Rightarrow> byte list \<Rightarrow> nat" where
  "utf8_payload acc cs = fold (\<lambda>c a. a * 0x40 + (unat c - 0x80)) cs acc"

function utf8_decode :: "byte list \<Rightarrow> pystr option" where
  "utf8_decode [] = Some []"
| "utf8_decode (b # bs) =
     (case utf8_lead b of
        None \<Rightarrow> None
      | Some (k, acc) \<Rightarrow>
          if k \<le> length bs \<and> list_all utf8_cont (take k bs)
          then map_option (Cons (utf8_payload acc (take k bs))) (utf8_decode (drop k bs))
          else None)"
  by pat_completeness auto
termination
  by (relation "measure length") auto

subsection \<open>Bytes of an encoded code point\<close>

lemma unat_byte: "n < 256 \<Longrightarrow> unat (byte_of n) = n"
  by (simp add: byte_of_def unat_of_nat)

lemma utf8_cont_byte: "utf8_cont (byte_of (0x80 + n mod 0x40))"
proof -
  have "0x80 + n mod 0x40 < (256::nat)" by simp
  then show ?thesis by (simp add: utf8_cont_def unat_byte)
qed

lemma unat_cont_byte: "unat (byte_of (0x80 + n mod 0x40)) - 0x80 = n mod 0x40"
proof -
  have "0x80 + n mod 0x40 < (256::nat)" by simp
  then show ?thesis by (simp add: unat_byte)
qed

lemma utf8_decode_char:
  assumes "valid_cp c" "utf8_encode_char c = Inr bs"
  shows "utf8_decode (bs @ rest) = map_option (Cons c) (utf8_decode rest)"
proof -
  consider (one) "c < 0x80" | (two) "0x80 \<le> c" "c < 0x800"
    | (three) "0x800 \<le> c" "c < 0x10000" | (four) "0x10000 \<le> c" "c < 0x110000"
    using assms(1) by (fastforce simp: valid_cp_def)
  then show ?thesis
  proof cases
    case one
    with assms(2) have "bs = [byte_of c]" by (simp add: utf8_encode_char_def)
    with one show ?thesis by (simp add: utf8_lead_def utf8_payload_def unat_byte)
  next
    case two
    let ?b0 = "0xC0 + c div 0x40"
    from two assms(2) have bs: "bs = [byte_of ?b0, byte_of (0x80 + c mod 0x40)]"
      by (simp add: utf8_encode_char_def)
    from two have "?b0 < 0xE0" "0xC0 \<le> ?b0" by simp_all
    then have "utf8_lead (byte_of ?b0) = Some (1, c div 0x40)"
      by (simp add: utf8_lead_def unat_byte)
    moreover have "c div 0x40 * 0x40 + c mod 0x40 = c" by simp
    ultimately show ?thesis
      by (simp add: bs utf8_payload_def utf8_cont_byte unat_cont_byte)
  next
    case three
    let ?b0 = "0xE0 + c div 0x1000"
    from three assms have bs: "bs = [byte_of ?b0, byte_of (0x80 + c div 0x40 mod 0x40),
        byte_of (0x80 + c mod 0x40)]"
      by (auto simp: utf8_encode_char_def valid_cp_def split: if_splits)
    from three have "?b0 < 0xF0" "0xE0 \<le> ?b0" by simp_all
    then have "utf8_lead (byte_of ?b0) = Some (2, c div 0x1000)"
      by (simp add: utf8_lead_def unat_byte)
    moreover have "(c div 0x1000 * 0x40 + c div 0x40 mod 0x40) * 0x40 + c mod 0x40 = c"
    proof -
      have "c div 0x1000 = c div 0x40 div 0x40" by (simp add: div_mult2_eq)
      then show ?thesis by simp
    qed
    ultimately show ?thesis
      by (simp add: bs utf8_payload_def utf8_cont_byte unat_cont_byte)
  next
    case four
    let ?b0 = "0xF0 + c div 0x40000"
    from four assms(2) have bs: "bs = [byte_of ?b0, byte_of (0x80 + c div 0x1000 mod 0x40),
        byte_of (0x80 + c div 0x40 mod 0x40), byte_of (0x80 + c mod 0x40)]"
      by (simp add: utf8_encode_char_def)
    from four have "?b0 < 0xF8" "0xF0 \<le> ?b0" by simp_all
    then have "utf8_lead (byte_of ?b0) = Some (3, c div 0x40000)"
      by (simp add: utf8_lead_def unat_byte)
    moreover have "((c div 0x40000 * 0x40 + c div 0x1000 mod 0x40) * 0x40 + c div 0x40 mod 0x40) * 0x40
        + c mod 0x40 = c"
    proof -
      have "c div 0x40000 = c div 0x40 div 0x40 div 0x40" "c div 0x1000 = c div 0x40 div 0x40"
        by (simp_all add: div_mult2_eq)
      then show ?thesis by simp
    qed
    ultimately show ?thesis
      by (simp add: bs utf8_payload_def utf8_cont_byte unat_cont_byte)
  qed
qed

lemma utf8_encode_char_ok: "valid_cp c \<longleftrightarrow> (\<exists>bs. utf8_encode_char c = Inr bs)"
  by (auto simp: utf8_encode_char_def valid_cp_def)

text \<open>
  The round trip: a string of valid code points encodes without error, and decoding the
  bytes gives it back. The program's file contents are stated through it.
\<close>

lemma utf8_decode_encode:
  "list_all valid_cp s \<Longrightarrow> \<exists>bs. utf8_encode s = Inr bs \<and> utf8_decode bs = Some s"
proof (induction s)
  case Nil
  then show ?case by simp
next
  case (Cons c s)
  then obtain rest where rest: "utf8_encode s = Inr rest" "utf8_decode rest = Some s" by auto
  from Cons.prems obtain bs where bs: "utf8_encode_char c = Inr bs"
    using utf8_encode_char_ok by auto
  have "utf8_decode (bs @ rest) = Some (c # s)"
    using utf8_decode_char [OF _ bs] Cons.prems rest(2) by simp
  with bs rest(1) show ?case by simp
qed

end
