(* ===== verification/Board_Text.thy ===== *)
theory Board_Text
  imports Board
begin

text \<open>
  Reading back the coloured rendering of \<^verbatim>\<open>AbstractBoard.__str__\<close> (lines
  187--194). Away from Windows each cell is \<open>ESC 4 d m\<close>, its text and the reset
  \<open>ESC [ 0 m\<close>, and each row ends with a line feed; \<open>parse_board\<close> reads such a
  text back into a grid (the empty text being \<^verbatim>\<open>None\<close>). The round trip
  \<open>parse_board_str\<close> shows the coloured rendering loses nothing when every cell is
  \<^verbatim>\<open>None\<close> or a glyph, while the Windows rendering does (\<open>checkers_rows_glyphs_only\<close>
  in \<^verbatim>\<open>Program\<close>).
\<close>

definition cell_ok :: "cell \<Rightarrow> bool" where
  "cell_ok c = (case c of None \<Rightarrow> True | Some g \<Rightarrow> glyph_ok g)"

definition parse_cell :: "pystr \<Rightarrow> (cell \<times> pystr) option" where
  "parse_cell s =
     (case s of
        e # f # d # m # t \<Rightarrow>
          if e = ESC \<and> f = 52 \<and> (d = 51 \<or> d = 55) \<and> m = 109 then
            (let g = takeWhile (\<lambda>x. x \<noteq> ESC) t; r = dropWhile (\<lambda>x. x \<noteq> ESC) t in
             if take 4 r = [ESC, 91, 48, 109] then Some (if g = [] then None else Some g, drop 4 r)
             else None)
          else None
      | _ \<Rightarrow> None)"

lemma length_drop_dropWhile [simp]: "length (dropWhile P t) - n < Suc (Suc (Suc (Suc (length t))))"
  using length_dropWhile_le [of P t] by linarith

lemma parse_cell_shorter: "parse_cell s = Some (c, r) \<Longrightarrow> length r < length s"
  by (auto simp: parse_cell_def Let_def split: list.splits if_splits)

function parse_row :: "pystr \<Rightarrow> (cell list \<times> pystr) option" where
  "parse_row [] = None"
| "parse_row (c # s) =
     (if c = NL then Some ([], s)
      else case parse_cell (c # s) of
        None \<Rightarrow> None
      | Some (cell, r) \<Rightarrow> map_option (\<lambda>(cells, u). (cell # cells, u)) (parse_row r))"
  by pat_completeness auto
termination
  by (relation "measure length") (auto dest: parse_cell_shorter)

lemma parse_row_shorter: "parse_row s = Some (cs, r) \<Longrightarrow> length r < length s"
proof (induction s arbitrary: cs rule: parse_row.induct)
  case 1
  then show ?case by simp
next
  case (2 c s)
  show ?case
  proof (cases "c = NL")
    case False
    with "2.prems" obtain cell u cs' where
      cell: "parse_cell (c # s) = Some (cell, u)" and row: "parse_row u = Some (cs', r)"
      by (auto split: option.split_asm)
    from "2.IH" [OF False cell refl row] parse_cell_shorter [OF cell] show ?thesis by simp
  qed (use "2.prems" in auto)
qed

function parse_board :: "pystr \<Rightarrow> cell list list option" where
  "parse_board [] = Some []"
| "parse_board (c # s) =
     (case parse_row (c # s) of
        None \<Rightarrow> None
      | Some (row, r) \<Rightarrow> map_option (Cons row) (parse_board r))"
  by pat_completeness auto
termination
  by (relation "measure length") (auto simp del: parse_row.simps dest!: parse_row_shorter)

subsection \<open>Reading back a rendering\<close>

lemma parse_cell_head: "parse_cell (x # s) = Some (c, r) \<Longrightarrow> x = ESC"
  by (auto simp: parse_cell_def split: list.splits if_splits)

lemma parse_row_cell:
  assumes "parse_cell s = Some (c, r)"
  shows "parse_row s = map_option (\<lambda>(cs, u). (c # cs, u)) (parse_row r)"
proof (cases s)
  case Nil
  with assms show ?thesis by (simp add: parse_cell_def)
next
  case (Cons x s')
  with assms parse_cell_head [of x s'] show ?thesis by simp
qed

lemma parse_board_nonempty:
  "s \<noteq> [] \<Longrightarrow> parse_board s = (case parse_row s of None \<Rightarrow> None | Some (row, r) \<Rightarrow> map_option (Cons row) (parse_board r))"
  by (cases s) simp_all

lemma parse_cell_console:
  assumes "\<not> is_win p" "cell_ok c"
  shows "parse_cell (console p c bg @ t) = Some (c, t)"
proof -
  let ?d = "if bg = BLACK then 51 else 55 :: nat"
  have g: "ESC \<notin> set (py_or_empty c)" "py_or_empty c = [] \<longleftrightarrow> c = None"
    using assms(2) by (auto simp: cell_ok_def glyph_ok_def split: option.splits)
  have tw: "takeWhile (\<lambda>x. x \<noteq> ESC) (py_or_empty c @ ESC # u) = py_or_empty c" for u
    by (subst takeWhile_append2) (use g(1) in auto)
  have dw: "dropWhile (\<lambda>x. x \<noteq> ESC) (py_or_empty c @ ESC # u) = ESC # u" for u
    by (subst dropWhile_append2) (use g(1) in auto)
  have "(if py_or_empty c = [] then None else Some (py_or_empty c)) = c"
    using g(2) by (cases c) auto
  then show ?thesis
    using assms(1) by (simp add: console_posix parse_cell_def tw dw)
qed

lemma parse_row_text:
  assumes "\<not> is_win p" "\<forall>c\<in>set row. cell_ok c"
  shows "parse_row (concat (map (\<lambda>(x, piece). console p piece (square_background y x)) (enumerate n row))
           @ NL # t) = Some (row, t)"
  using assms(2)
proof (induction row arbitrary: n)
  case Nil
  then show ?case by simp
next
  case (Cons c row)
  have "parse_cell (console p c (square_background y n) @
          concat (map (\<lambda>(x, piece). console p piece (square_background y x)) (enumerate (Suc n) row)) @ NL # t)
        = Some (c, concat (map (\<lambda>(x, piece). console p piece (square_background y x)) (enumerate (Suc n) row)) @ NL # t)"
    using Cons.prems assms(1) by (simp add: parse_cell_console)
  with Cons show ?case by (simp add: parse_row_cell)
qed

lemma parse_board_rows:
  assumes "\<not> is_win p" "\<forall>row\<in>set rows. \<forall>c\<in>set row. cell_ok c"
  shows "parse_board (concat (map (\<lambda>(y, row). row_text p y row) (enumerate n rows)) @ t) =
         map_option (\<lambda>rs. rows @ rs) (parse_board t)"
  using assms(2)
proof (induction rows arbitrary: n)
  case Nil
  then show ?case by (simp add: option.map_ident)
next
  case (Cons row rows)
  let ?rest = "concat (map (\<lambda>(y, row). row_text p y row) (enumerate (Suc n) rows)) @ t"
  have "parse_row (row_text p n row @ ?rest) = Some (row, ?rest)"
    using parse_row_text [OF assms(1)] Cons.prems by (simp add: row_text_def)
  moreover have "row_text p n row @ ?rest \<noteq> []" by (simp add: row_text_def)
  ultimately show ?case using Cons by (simp add: parse_board_nonempty option.map_comp o_def)
qed

lemma parse_board_str_append:
  assumes "\<not> is_win p" "\<forall>row\<in>set (board s). \<forall>c\<in>set row. cell_ok c"
  shows "parse_board (board_str p s @ t) = map_option (\<lambda>rs. board s @ rs) (parse_board t)"
  using parse_board_rows [OF assms] by (simp add: board_str_rows)

subsection \<open>Properties\<close>

text \<open>
  C8: away from Windows the rendering \<^verbatim>\<open>str(board)\<close> loses nothing: when every
  cell is \<^verbatim>\<open>None\<close> or a glyph, reading the text back gives the board's grid.
\<close>

theorem parse_board_str:
  assumes "\<not> is_win p" "\<forall>row\<in>set (board s). \<forall>c\<in>set row. cell_ok c"
  shows "parse_board (board_str p s) = Some (board s)"
proof -
  have "board_str p s = concat (map (\<lambda>(y, row). row_text p y row) (enumerate 0 (board s))) @ []"
    by (simp add: board_str_def board_squares_def row_text_def concat_concat_map split_def)
  then show ?thesis using parse_board_rows [OF assms, of 0 "[]"] by (simp add: option.map_ident)
qed

theorem parse_board_str_witness:
  "\<not> is_win (py_str ''linux'') \<and>
   parse_board (board_str (py_str ''linux'') \<lparr>board = [[None, Some [0x25CF]], [Some (py_str ''(WK)''), None]]\<rparr>) =
     Some [[None, Some [0x25CF]], [Some (py_str ''(WK)''), None]]"
proof -
  have lin: "\<not> is_win (py_str ''linux'')" by (simp add: is_win_def)
  have "\<forall>row\<in>set [[None, Some [0x25CF]], [Some (py_str ''(WK)''), None]]. \<forall>c\<in>set row. cell_ok c"
    by (simp add: cell_ok_def glyph_ok_def)
  with lin show ?thesis
    using parse_board_str [of "py_str ''linux''" "\<lparr>board = [[None, Some [0x25CF]], [Some (py_str ''(WK)''), None]]\<rparr>"]
    by simp
qed


end
