(* ===== verification/Program.thy ===== *)
theory Program
  imports Checkers Chess Utf8 Board_Text
begin

text \<open>
  The process: the module's import-time setup (lines 8--16 of \<^verbatim>\<open>gameboard1.py\<close>)
  and \<^verbatim>\<open>main\<close> (lines 243--259). The world the program changes is a record
  \<open>io_world\<close>: the text that reached the process's real standard output
  (\<^verbatim>\<open>sys.__stdout__\<close>), the buffer of the \<^verbatim>\<open>io.StringIO\<close> that replaces
  \<^verbatim>\<open>sys.stdout\<close> on Windows (\<^verbatim>\<open>None\<close> while \<^verbatim>\<open>sys.stdout\<close> is the real stream),
  and the file system, a map from paths to byte contents.

  \<^verbatim>\<open>print(x)\<close> writes \<^verbatim>\<open>str(x)\<close> and a line feed to \<^verbatim>\<open>sys.stdout\<close>
  (\<open>py_print\<close>); \<^verbatim>\<open>print(x, file=sys.__stdout__)\<close> to the real stream
  (\<open>print_real\<close>); \<^verbatim>\<open>sys.stdout.getvalue()\<close> reads the buffer and raises
  \<^verbatim>\<open>AttributeError\<close> if \<^verbatim>\<open>sys.stdout\<close> is not a \<^verbatim>\<open>StringIO\<close> (\<open>getvalue\<close>).
  The file is opened in text mode, \<^verbatim>\<open>open(filename, 'w', encoding='utf-8')\<close>,
  which creates or truncates it (\<open>open_text_file\<close>); the stream translates each line
  feed to \<^verbatim>\<open>os.linesep\<close>, which is CR LF on the Windows branch
  (\<open>text_mode_newlines\<close>), then encodes to UTF-8 (\<open>write_text_file\<close>). As in
  the source, the file is opened before \<^verbatim>\<open>getvalue()\<close> is called. The path is \<^verbatim>\<open>os.path.join\<close> of the temporary
  directory and \<^verbatim>\<open>gameboard.txt\<close> (\<open>nt_path_join\<close>, Windows' rules for a relative
  second component); the temporary directory is a parameter, as
  \<^verbatim>\<open>tempfile.gettempdir()\<close> depends on the environment. Printing is modelled on
  text: the encoding of the terminal stream is not, so a POSIX locale whose encoding
  cannot represent the draught glyphs (where \<^verbatim>\<open>print\<close> would raise
  \<^verbatim>\<open>UnicodeEncodeError\<close>) is outside the model; it assumes a UTF-8 terminal.
\<close>

record io_world =
  term_out :: pystr
  stdout_capture :: "pystr option"
  files :: "pystr \<Rightarrow> byte list option"

definition initial_world :: io_world where
  "initial_world = \<lparr>term_out = [], stdout_capture = None, files = Map.empty\<rparr>"

definition module_init :: "pystr \<Rightarrow> io_world \<Rightarrow> io_world" where
  "module_init platform w = (if is_win platform then w\<lparr>stdout_capture := Some []\<rparr> else w)"

definition py_print :: "io_world \<Rightarrow> pystr \<Rightarrow> io_world" where
  "py_print w s =
     (case stdout_capture w of
        Some buf \<Rightarrow> w\<lparr>stdout_capture := Some (buf @ s @ [NL])\<rparr>
      | None \<Rightarrow> w\<lparr>term_out := term_out w @ s @ [NL]\<rparr>)"

definition print_real :: "io_world \<Rightarrow> pystr \<Rightarrow> io_world" where
  "print_real w s = w\<lparr>term_out := term_out w @ s @ [NL]\<rparr>"

definition getvalue :: "io_world \<Rightarrow> pystr result" where
  "getvalue w = (case stdout_capture w of Some buf \<Rightarrow> Inr buf | None \<Rightarrow> Inl AttributeError)"

definition nt_path_join :: "pystr \<Rightarrow> pystr \<Rightarrow> pystr" where
  "nt_path_join a b =
     (if a = [] \<or> last a \<in> {92, 47} \<or> (length a = 2 \<and> a ! 1 = 58) then a @ b else a @ [92] @ b)"

definition text_mode_newlines :: "pystr \<Rightarrow> pystr" where
  "text_mode_newlines s = concat (map (\<lambda>c. if c = NL then [13, NL] else [c]) s)"

text \<open>
  An exception that leaves \<^verbatim>\<open>main\<close> stops the program with the world as it was when
  the exception was raised: a run ends in \<open>Inr w\<close> or in \<open>Inl (e, w)\<close>. \<open>wbind\<close>
  runs a step that may raise in the world \<open>w\<close>; \<open>wthen\<close> continues after a step
  that may raise and change the world.
\<close>

type_synonym run_result = "(py_error \<times> io_world) + io_world"

definition wbind :: "io_world \<Rightarrow> 'a result \<Rightarrow> ('a \<Rightarrow> run_result) \<Rightarrow> run_result" where
  "wbind w m f = (case m of Inl e \<Rightarrow> Inl (e, w) | Inr a \<Rightarrow> f a)"

definition wthen :: "run_result \<Rightarrow> (io_world \<Rightarrow> run_result) \<Rightarrow> run_result" where
  "wthen r f = (case r of Inl ew \<Rightarrow> Inl ew | Inr w \<Rightarrow> f w)"

text \<open>
  \<^verbatim>\<open>open(filename, 'w', encoding='utf-8')\<close> (line 252) creates the file or truncates
  it; \<^verbatim>\<open>file.write(text)\<close> (line 253) translates the line feeds, encodes the whole
  text, and the bytes reach the file when the \<^verbatim>\<open>with\<close> block closes it. An encoding
  error leaves the file empty.
\<close>

definition open_text_file :: "io_world \<Rightarrow> pystr \<Rightarrow> io_world" where
  "open_text_file w filename = w\<lparr>files := (files w)(filename \<mapsto> [])\<rparr>"

definition write_text_file :: "io_world \<Rightarrow> pystr \<Rightarrow> pystr \<Rightarrow> run_result" where
  "write_text_file w filename text =
     wbind w (utf8_encode (text_mode_newlines text)) (\<lambda>bytes.
     Inr (w\<lparr>files := (files w)(filename \<mapsto> bytes)\<rparr>))"

definition main :: "pystr \<Rightarrow> pystr \<Rightarrow> io_world \<Rightarrow> run_result" where
  "main platform tmpdir w =
     wbind w checkers_init (\<lambda>checkers.
     let w = py_print w (board_str platform checkers) in
     wbind w chess_init (\<lambda>chess.
     let w = py_print w (board_str platform chess) in
     if is_win platform then
       (let filename = nt_path_join tmpdir (py_str ''gameboard.txt'');
            w = open_text_file w filename in
        wbind w (getvalue w) (\<lambda>text.
        wthen (write_text_file w filename text) (\<lambda>w.
        Inr (print_real w (py_str ''wrote '' @ [39] @ filename @ [39])))))
     else Inr w))"

definition run_program :: "pystr \<Rightarrow> pystr \<Rightarrow> io_world \<Rightarrow> run_result" where
  "run_program platform tmpdir w = main platform tmpdir (module_init platform w)"

subsection \<open>The text the program prints\<close>

text \<open>The code points of the escape sequences \<^verbatim>\<open>console\<close> emits.\<close>

definition sgr_cps :: "nat set" where
  "sgr_cps = {ESC, 52, 51, 55, 109, 91, 48}"

definition program_text :: "pystr \<Rightarrow> pystr" where
  "program_text platform =
     board_str platform \<lparr>board = checkers_layout 10 10\<rparr> @ [NL] @
     board_str platform \<lparr>board = chess_layout 8 8\<rparr> @ [NL]"

lemma main_boards:
  "main platform tmpdir w =
     (let w = py_print (py_print w (board_str platform \<lparr>board = checkers_layout 10 10\<rparr>))
                (board_str platform \<lparr>board = chess_layout 8 8\<rparr>) in
      if is_win platform then
        (let filename = nt_path_join tmpdir (py_str ''gameboard.txt'');
             w = open_text_file w filename in
         wbind w (getvalue w) (\<lambda>text.
         wthen (write_text_file w filename text) (\<lambda>w.
         Inr (print_real w (py_str ''wrote '' @ [39] @ filename @ [39])))))
      else Inr w)"
  by (simp add: main_def checkers_init_def chess_init_def checkers_init_grid chess_init_grid Let_def wbind_def)



subsection \<open>The printed text is valid Unicode and holds no stray escape\<close>

lemma set_console: "set (console p c bg) \<subseteq> sgr_cps \<union> set (py_or_empty c)"
  by (cases "is_win p") (auto simp: console_win console_posix sgr_cps_def)

lemma enumerate_snd_mem: "(i, x) \<in> set (enumerate n xs) \<Longrightarrow> x \<in> set xs"
  by (simp add: enumerate_eq_zip set_zip_rightD)

lemma set_board_str:
  "set (board_str p s) \<subseteq> insert NL (sgr_cps \<union> (\<Union>row\<in>set (board s). \<Union>c\<in>set row. set (py_or_empty c)))"
  using set_console [of p] by (fastforce simp: board_str_rows row_text_def dest: enumerate_snd_mem)

lemma valid_board_str:
  assumes "\<forall>row\<in>set (board s). \<forall>c\<in>set row. list_all valid_cp (py_or_empty c)"
  shows "list_all valid_cp (board_str p s)"
proof -
  have "\<forall>x\<in>insert NL (sgr_cps \<union> (\<Union>row\<in>set (board s). \<Union>c\<in>set row. set (py_or_empty c))). valid_cp x"
    using assms by (auto simp: sgr_cps_def valid_cp_def list_all_iff)
  then show ?thesis using set_board_str [of p s] by (auto simp: list_all_iff)
qed

lemma grid_cells_map_option:
  assumes "row \<in> set (map (\<lambda>i. map (\<lambda>j. map_option f (g i j)) cs) rs)" "x \<in> set row"
  shows "x = None \<or> (\<exists>y. x = Some (f y))"
proof -
  from assms obtain i j where "x = map_option f (g i j)" by auto
  then show ?thesis by (cases "g i j") auto
qed

lemma checkers_layout_cells:
  assumes "P None" "\<And>q. P (Some (piece_new q))"
  shows "\<forall>row\<in>set (board \<lparr>board = checkers_layout r c\<rparr>). \<forall>x\<in>set row. P x"
proof (intro ballI)
  fix row x
  assume "row \<in> set (board \<lparr>board = checkers_layout r c\<rparr>)" "x \<in> set row"
  then have "x = None \<or> (\<exists>y. x = Some (piece_new y))"
    unfolding board_obj.select_convs checkers_layout_def by (rule grid_cells_map_option)
  with assms show "P x" by auto
qed

lemma chess_layout_cells:
  assumes "P None" "\<And>a k. P (Some (spec_glyph a k))"
  shows "\<forall>row\<in>set (board \<lparr>board = chess_layout r c\<rparr>). \<forall>x\<in>set row. P x"
proof (intro ballI)
  fix row x
  assume "row \<in> set (board \<lparr>board = chess_layout r c\<rparr>)" "x \<in> set row"
  then have "x = None \<or> (\<exists>y. x = Some ((\<lambda>(a, k). spec_glyph a k) y))"
    unfolding board_obj.select_convs chess_layout_def by (rule grid_cells_map_option)
  with assms show "P x" by auto
qed

lemma spec_glyph_ok: "glyph_ok (spec_glyph a k)"
  by (cases a; cases k) (simp_all add: spec_glyph_def glyph_ok_def)

lemma layout_cells_ok:
  "\<forall>row\<in>set (board \<lparr>board = checkers_layout r c\<rparr>). \<forall>x\<in>set row. cell_ok x"
  "\<forall>row\<in>set (board \<lparr>board = chess_layout r c\<rparr>). \<forall>x\<in>set row. cell_ok x"
   by (rule checkers_layout_cells; simp add: cell_ok_def)
     (rule chess_layout_cells; simp add: cell_ok_def spec_glyph_ok)

lemma layout_cells_valid:
  "\<forall>row\<in>set (board \<lparr>board = checkers_layout r c\<rparr>). \<forall>x\<in>set row. list_all valid_cp (py_or_empty x)"
  "\<forall>row\<in>set (board \<lparr>board = chess_layout r c\<rparr>). \<forall>x\<in>set row. list_all valid_cp (py_or_empty x)"
proof -
  have "list_all valid_cp (piece_new q)" for q by (cases q) (simp_all add: valid_cp_def)
  then show "\<forall>row\<in>set (board \<lparr>board = checkers_layout r c\<rparr>). \<forall>x\<in>set row. list_all valid_cp (py_or_empty x)"
    by (intro checkers_layout_cells) simp_all
  have "list_all valid_cp (spec_glyph a k)" for a k
    by (cases a; cases k) (simp_all add: spec_glyph_def valid_cp_def)
  then show "\<forall>row\<in>set (board \<lparr>board = chess_layout r c\<rparr>). \<forall>x\<in>set row. list_all valid_cp (py_or_empty x)"
    by (intro chess_layout_cells) simp_all
qed

lemma valid_text_mode_newlines: "list_all valid_cp s \<Longrightarrow> list_all valid_cp (text_mode_newlines s)"
  by (induction s) (auto simp: text_mode_newlines_def valid_cp_def)

lemma text_mode_newlines_changes: "NL \<in> set s \<Longrightarrow> text_mode_newlines s \<noteq> s"
proof
  assume nl: "NL \<in> set s" and eq: "text_mode_newlines s = s"
  have "length (text_mode_newlines s) = length s + count_list s NL"
    by (induction s) (simp_all add: text_mode_newlines_def)
  with eq have "count_list s NL = 0" by simp
  with nl show False by (simp add: count_list_0_iff)
qed


lemma valid_program_text: "list_all valid_cp (program_text p)"
  using valid_board_str [OF layout_cells_valid(1), of p 10 10] valid_board_str [OF layout_cells_valid(2), of p 8 8]
  by (simp add: program_text_def valid_cp_def)


lemma layout_cells_no_esc:
  "\<forall>row\<in>set (board \<lparr>board = checkers_layout r c\<rparr>). \<forall>x\<in>set row. ESC \<notin> set (py_or_empty x)"
  "\<forall>row\<in>set (board \<lparr>board = chess_layout r c\<rparr>). \<forall>x\<in>set row. ESC \<notin> set (py_or_empty x)"
  by (rule checkers_layout_cells; use piece_new_glyph_ok in \<open>simp add: glyph_ok_def\<close>)
    (rule chess_layout_cells; use spec_glyph_ok in \<open>simp add: glyph_ok_def\<close>)

lemma strip_sgr_program_text: "strip_sgr (program_text p) = program_text (py_str ''win32'')"
proof -
  have win: "is_win (py_str ''win32'')" by (simp add: is_win_def)
  have nl: "strip_sgr ([NL] @ t) = [NL] @ strip_sgr t" for t by (rule strip_sgr_plain) simp
  show ?thesis
    unfolding program_text_def
    by (simp only: strip_sgr_board_str_append [OF layout_cells_no_esc(1) win]
        strip_sgr_board_str_append [OF layout_cells_no_esc(2) win] append_assoc nl)
      (simp add: strip_sgr_plain_only)
qed


subsection \<open>Runs of the program\<close>

text \<open>
  C5: away from Windows the program raises nothing, writes no file and prints to the
  terminal the coloured rendering of \<^verbatim>\<open>CheckersBoard()\<close>, a line feed, the rendering
  of \<^verbatim>\<open>ChessBoard()\<close> and a line feed.
\<close>

theorem run_program_posix:
  assumes "\<not> is_win platform" "stdout_capture w = None"
  shows "run_program platform tmpdir w = Inr (w\<lparr>term_out := term_out w @ program_text platform\<rparr>)"
  using assms by (simp add: run_program_def module_init_def main_boards py_print_def program_text_def)

theorem run_program_posix_witness:
  "\<not> is_win (py_str ''linux'') \<and> stdout_capture initial_world = None \<and>
   run_program (py_str ''linux'') (py_str ''/tmp'') initial_world =
     Inr (initial_world\<lparr>term_out := program_text (py_str ''linux'')\<rparr>)"
  using run_program_posix [of "py_str ''linux''" initial_world "py_str ''/tmp''"]
  by (simp add: is_win_def initial_world_def)


lemma run_program_linux:
  "run_program (py_str ''linux'') tmpdir initial_world =
     Inr (initial_world\<lparr>term_out := program_text (py_str ''linux'')\<rparr>)"
proof -
  have "\<not> is_win (py_str ''linux'')" by (simp add: is_win_def)
  then show ?thesis
    by (simp add: run_program_def module_init_def main_boards py_print_def program_text_def initial_world_def)
qed

lemma run_program_win_encoded:
  assumes "is_win platform" "utf8_encode (text_mode_newlines (program_text platform)) = Inr bytes"
  shows "run_program platform tmpdir w =
      Inr (w\<lparr>term_out := term_out w @ py_str ''wrote '' @ [39] @ nt_path_join tmpdir (py_str ''gameboard.txt'') @ [39, NL],
             stdout_capture := Some (program_text platform),
             files := (files w)(nt_path_join tmpdir (py_str ''gameboard.txt'') \<mapsto> bytes)\<rparr>)"
  using assms
  by (simp add: run_program_def module_init_def main_boards py_print_def program_text_def getvalue_def
      open_text_file_def write_text_file_def wbind_def wthen_def print_real_def Let_def)

lemma program_text_encodes:
  "\<exists>bytes. utf8_encode (text_mode_newlines (program_text p)) = Inr bytes \<and>
     utf8_decode bytes = Some (text_mode_newlines (program_text p))"
  by (rule utf8_decode_encode [OF valid_text_mode_newlines [OF valid_program_text]])

text \<open>
  C3: on Windows the program raises nothing: both boards go to the \<^verbatim>\<open>StringIO\<close>
  buffer, the file \<^verbatim>\<open>gameboard.txt\<close> in the temporary directory receives that text in
  UTF-8 with every line feed turned into CR LF, and the terminal gets only the line
  \<^verbatim>\<open>wrote '<path>'\<close>.
\<close>

theorem run_program_windows:
  assumes "is_win platform"
  shows "\<exists>bytes. run_program platform tmpdir w =
      Inr (w\<lparr>term_out := term_out w @ py_str ''wrote '' @ [39] @ nt_path_join tmpdir (py_str ''gameboard.txt'') @ [39, NL],
             stdout_capture := Some (program_text platform),
             files := (files w)(nt_path_join tmpdir (py_str ''gameboard.txt'') \<mapsto> bytes)\<rparr>)
    \<and> utf8_decode bytes = Some (text_mode_newlines (program_text platform))"
  using program_text_encodes [of platform] run_program_win_encoded [OF assms] by blast

theorem run_program_windows_witness:
  "is_win (py_str ''win32'') \<and>
   (\<exists>bytes. run_program (py_str ''win32'') (py_str ''T'') initial_world =
      Inr (initial_world\<lparr>term_out := py_str ''wrote '' @ [39] @ py_str ''T'' @ [92] @ py_str ''gameboard.txt'' @ [39, NL],
             stdout_capture := Some (program_text (py_str ''win32'')),
             files := [py_str ''T'' @ [92] @ py_str ''gameboard.txt'' \<mapsto> bytes]\<rparr>)
    \<and> utf8_decode bytes = Some (text_mode_newlines (program_text (py_str ''win32''))))"
proof -
  have win: "is_win (py_str ''win32'')" by (simp add: is_win_def)
  have path: "nt_path_join (py_str ''T'') (py_str ''gameboard.txt'') = py_str ''T'' @ [92] @ py_str ''gameboard.txt''"
    by (simp add: nt_path_join_def)
  have "term_out initial_world = []" "files initial_world = Map.empty" by (simp_all add: initial_world_def)
  then show ?thesis
    using run_program_windows [OF win, of "py_str ''T''" initial_world] win
    unfolding path by simp
qed

text \<open>
  C4: the file written on Windows decodes to the text printed on another platform with
  its escape sequences removed and its line feeds turned into CR LF; so it is not that
  text with the escapes removed, which is what the spec says the file holds.
\<close>

theorem windows_file_vs_terminal:
  "\<exists>w1 w2 bytes.
     run_program (py_str ''linux'') tmpdir initial_world = Inr w1 \<and>
     run_program (py_str ''win32'') tmpdir initial_world = Inr w2 \<and>
     files w2 (nt_path_join tmpdir (py_str ''gameboard.txt'')) = Some bytes \<and>
     utf8_decode bytes = Some (text_mode_newlines (strip_sgr (term_out w1))) \<and>
     utf8_decode bytes \<noteq> Some (strip_sgr (term_out w1))"
proof -
  let ?lin = "py_str ''linux''" and ?win = "py_str ''win32''"
  have "\<not> is_win ?lin" "is_win ?win" by (simp_all add: is_win_def)
  note posix = run_program_linux [of tmpdir]
  obtain bytes where enc: "utf8_encode (text_mode_newlines (program_text ?win)) = Inr bytes"
    and dec: "utf8_decode bytes = Some (text_mode_newlines (program_text ?win))"
    using program_text_encodes by blast
  have nl: "NL \<in> set (program_text ?win)" by (simp add: program_text_def)
  show ?thesis
    using posix run_program_win_encoded [OF \<open>is_win ?win\<close> enc, of tmpdir initial_world]
      dec text_mode_newlines_changes [OF nl]
    by (simp add: strip_sgr_program_text)
qed

text \<open>
  C6: read as glyphs only (escape sequences removed), the first two lines of
  \<^verbatim>\<open>str(CheckersBoard())\<close> are the same five black discs: an empty cell
  renders as the empty string, so the spec's reading of row 0 as empty marker, disc,
  empty marker, disc, ... does not hold, and row 0 (discs on odd columns) cannot be told
  from row 1 (discs on even columns).
\<close>

theorem checkers_rows_glyphs_only:
  "\<exists>s. checkers_init = Inr s \<and>
     take 12 (strip_sgr (board_str platform s)) =
       [0x25CF, 0x25CF, 0x25CF, 0x25CF, 0x25CF, NL, 0x25CF, 0x25CF, 0x25CF, 0x25CF, 0x25CF, NL]"
proof -
  have win: "is_win (py_str ''win32'')" by (simp add: is_win_def)
  have "strip_sgr (board_str platform \<lparr>board = checkers_layout 10 10\<rparr>) =
        board_str (py_str ''win32'') \<lparr>board = checkers_layout 10 10\<rparr>"
    using strip_sgr_board_str_append [OF layout_cells_no_esc(1) win, of platform 10 10 "[]"] by simp
  moreover have "take 12 (board_str (py_str ''win32'') \<lparr>board = checkers_layout 10 10\<rparr>) =
       [0x25CF, 0x25CF, 0x25CF, 0x25CF, 0x25CF, NL, 0x25CF, 0x25CF, 0x25CF, 0x25CF, 0x25CF, NL]"
    using win by (simp add: board_str_rows checkers_layout_def upt_rec checkers_spec_def row_text_def console_win)
  ultimately show ?thesis by (simp add: checkers_init_def checkers_init_grid)
qed

text \<open>
  C7: the coloured text a non-Windows run leaves on the terminal reads back as the two
  boards' grids, each followed by the empty row that \<^verbatim>\<open>print\<close>'s own line feed
  adds after \<^verbatim>\<open>__str__\<close>'s last one.
\<close>

theorem terminal_output_reads_back:
  "\<exists>w. run_program (py_str ''linux'') tmpdir initial_world = Inr w \<and>
     parse_board (term_out w) = Some (checkers_layout 10 10 @ [[]] @ chess_layout 8 8 @ [[]])"
proof -
  have "parse_board (program_text p) = Some (checkers_layout 10 10 @ [[]] @ chess_layout 8 8 @ [[]])"
    if lin: "\<not> is_win p" for p
    unfolding program_text_def
    by (simp add: parse_board_str_append [OF lin layout_cells_ok(1)] parse_board_str_append [OF lin layout_cells_ok(2)])
  moreover have "\<not> is_win (py_str ''linux'')" by (simp add: is_win_def)
  ultimately show ?thesis using run_program_linux [of tmpdir] by simp
qed

text \<open>
  C24: \<^verbatim>\<open>main\<close> relies on the import-time swap of \<^verbatim>\<open>sys.stdout\<close>. On Windows
  with \<^verbatim>\<open>sys.stdout\<close> still the real stream (no \<^verbatim>\<open>StringIO\<close>), both boards
  are printed to the terminal, \<^verbatim>\<open>open\<close> creates or truncates
  \<^verbatim>\<open>gameboard.txt\<close> to an empty file, and \<^verbatim>\<open>sys.stdout.getvalue()\<close> then raises
  \<^verbatim>\<open>AttributeError\<close>, leaving the file empty.
\<close>

theorem main_without_capture:
  assumes "is_win platform" "stdout_capture w = None"
  shows "main platform tmpdir w =
           Inl (AttributeError,
                w\<lparr>term_out := term_out w @ program_text platform,
                  files := (files w)(nt_path_join tmpdir (py_str ''gameboard.txt'') \<mapsto> [])\<rparr>)"
  using assms
  by (simp add: main_boards py_print_def getvalue_def open_text_file_def wbind_def program_text_def Let_def)

theorem main_without_capture_witness:
  "is_win (py_str ''win32'') \<and> stdout_capture initial_world = None \<and>
   main (py_str ''win32'') (py_str ''T'') initial_world =
     Inl (AttributeError,
          initial_world\<lparr>term_out := program_text (py_str ''win32''),
            files := [py_str ''T'' @ [92] @ py_str ''gameboard.txt'' \<mapsto> []]\<rparr>)"
proof -
  have "is_win (py_str ''win32'')" "stdout_capture initial_world = None"
    by (simp_all add: is_win_def initial_world_def)
  moreover have "nt_path_join (py_str ''T'') (py_str ''gameboard.txt'') = py_str ''T'' @ [92] @ py_str ''gameboard.txt''"
    by (simp add: nt_path_join_def)
  moreover have "term_out initial_world = []" "files initial_world = Map.empty"
    by (simp_all add: initial_world_def)
  ultimately show ?thesis
    using main_without_capture [of "py_str ''win32''" initial_world "py_str ''T''"] by simp
qed

end
